theory Spec2Isabelle
  imports Complex_Main
begin

section \<open>JavaScript values\<close>

text \<open>
  The rows the store gateway hands back are untyped at run time (\<^verbatim>\<open>row: any\<close>,
  \<^verbatim>\<open>data as TargetingIntelData\<close>), so rows and entities are JavaScript values. No
  arithmetic is done on numbers in this layer: they are literals, defaults and values
  passed through, and are modelled as reals. An object is the list of its own
  properties in insertion order.
\<close>

datatype js =
    JUndefined
  | JNull
  | JBool bool
  | JNum real
  | JStr string
  | JArr "js list"
  | JObj "(string \<times> js) list"

text \<open>\<^verbatim>\<open>v == null\<close>: the values on which \<^verbatim>\<open>??\<close> and \<^verbatim>\<open>?.\<close> give up and on which a
  property read throws a TypeError.\<close>

fun nullish :: "js \<Rightarrow> bool" where
  "nullish JUndefined = True"
| "nullish JNull = True"
| "nullish _ = False"

text \<open>\<^verbatim>\<open>!v\<close> (\<^verbatim>\<open>NaN\<close> is not among the reals and is left out).\<close>

fun falsy :: "js \<Rightarrow> bool" where
  "falsy JUndefined = True"
| "falsy JNull = True"
| "falsy (JBool b) = (\<not> b)"
| "falsy (JNum x) = (x = 0)"
| "falsy (JStr s) = (s = [])"
| "falsy _ = False"

text \<open>\<^verbatim>\<open>v.k\<close> for a value that is not nullish and one of the column names this layer
  reads (none of them is a built-in property of a string, number, boolean or array):
  the own property of an object, \<^verbatim>\<open>undefined\<close> otherwise.\<close>

fun member :: "js \<Rightarrow> string \<Rightarrow> js" where
  "member (JObj fs) k = (case map_of fs k of None \<Rightarrow> JUndefined | Some v \<Rightarrow> v)"
| "member _ k = JUndefined"

text \<open>\<^verbatim>\<open>v?.k\<close>\<close>

definition opt_member :: "js \<Rightarrow> string \<Rightarrow> js" where
  "opt_member v k = (if nullish v then JUndefined else member v k)"

text \<open>\<^verbatim>\<open>v ?? d\<close>\<close>

definition coalesce :: "js \<Rightarrow> js \<Rightarrow> js" where
  "coalesce v d = (if nullish v then d else v)"

text \<open>\<^verbatim>\<open>{...o, k: v}\<close>: an existing property keeps its place and takes the new value,
  a new one is appended.\<close>

fun obj_set :: "string \<Rightarrow> js \<Rightarrow> (string \<times> js) list \<Rightarrow> (string \<times> js) list" where
  "obj_set k v [] = [(k, v)]"
| "obj_set k v ((k', v') # fs) =
     (if k' = k then (k, v) # fs else (k', v') # obj_set k v fs)"

section \<open>The clock\<close>

text \<open>
  \<^verbatim>\<open>new Date()\<close> reads the clock; the value read is kept by its UTC fields, which is
  all \<^verbatim>\<open>toISOString\<close> uses (years before 0 are left out).
\<close>

record utc_time =
  utc_year :: nat
  utc_month :: nat
  utc_day :: nat
  utc_hours :: nat
  utc_minutes :: nat
  utc_seconds :: nat
  utc_millis :: nat

definition digit :: "nat \<Rightarrow> char" where
  "digit n = ''0123456789'' ! (n mod 10)"

definition pad2 :: "nat \<Rightarrow> string" where
  "pad2 n = [digit (n div 10), digit n]"

definition pad3 :: "nat \<Rightarrow> string" where
  "pad3 n = digit (n div 100) # pad2 n"

definition pad4 :: "nat \<Rightarrow> string" where
  "pad4 n = digit (n div 1000) # pad3 n"

definition pad6 :: "nat \<Rightarrow> string" where
  "pad6 n = digit (n div 100000) # digit (n div 10000) # pad4 n"

text \<open>\<^verbatim>\<open>Date.prototype.toISOString\<close>: \<^verbatim>\<open>YYYY-MM-DDTHH:mm:ss.sssZ\<close>, with the expanded
  year \<^verbatim>\<open>+YYYYYY\<close> beyond 9999.\<close>

definition toISOString :: "utc_time \<Rightarrow> string" where
  "toISOString t =
     (if utc_year t \<le> 9999 then pad4 (utc_year t) else CHR ''+'' # pad6 (utc_year t))
     @ ''-'' @ pad2 (utc_month t) @ ''-'' @ pad2 (utc_day t)
     @ ''T'' @ pad2 (utc_hours t) @ '':'' @ pad2 (utc_minutes t)
     @ '':'' @ pad2 (utc_seconds t) @ ''.'' @ pad3 (utc_millis t) @ ''Z''"

text \<open>\<^verbatim>\<open>s.split(c)[0]\<close>\<close>

definition split_first :: "char \<Rightarrow> string \<Rightarrow> string" where
  "split_first c s = takeWhile (\<lambda>x. x \<noteq> c) s"

section \<open>Values as text\<close>

text \<open>
  \<^verbatim>\<open>String(v)\<close>, which is what a template literal applies to a value, for the values
  of the model. A number is written as \<^verbatim>\<open>Number.prototype.toString\<close> writes it: from
  its significant digits \<open>ds\<close> and the position \<open>n\<close> of the decimal point, plainly
  while \<open>-6 < n \<le> 21\<close> and in exponent notation beyond. The digits of a fraction are
  followed for at most 400 places.
\<close>

function decimal :: "int \<Rightarrow> string" where
  "decimal n =
     (if n < 10 then [digit (nat n)] else decimal (n div 10) @ [digit (nat (n mod 10))])"
  by pat_completeness auto
termination
  by (relation "measure nat") auto

text \<open>The number of decimal places of \<open>x\<close>, as far as the fuel reaches.\<close>

fun places :: "nat \<Rightarrow> real \<Rightarrow> nat" where
  "places 0 x = 0"
| "places (Suc fuel) x = (if frac x = 0 then 0 else Suc (places fuel (x * 10)))"

function trailing_zeros :: "int \<Rightarrow> nat" where
  "trailing_zeros s =
     (if s \<le> 0 \<or> s mod 10 \<noteq> 0 then 0 else Suc (trailing_zeros (s div 10)))"
  by pat_completeness auto
termination
  by (relation "measure nat") auto

definition positive_text :: "real \<Rightarrow> string" where
  "positive_text x =
     (let m = places 400 x;
          scaled = \<lfloor>x * 10 ^ m\<rfloor>;
          z = trailing_zeros scaled;
          ds = decimal (scaled div 10 ^ z);
          k = int (length ds);
          n = k + int z - int m
      in if k \<le> n \<and> n \<le> 21 then ds @ replicate (nat (n - k)) CHR ''0''
         else if 0 < n \<and> n \<le> 21 then take (nat n) ds @ ''.'' @ drop (nat n) ds
         else if - 6 < n \<and> n \<le> 0 then ''0.'' @ replicate (nat (- n)) CHR ''0'' @ ds
         else (if k = 1 then ds else hd ds # ''.'' @ tl ds)
              @ ''e'' @ (if 0 \<le> n - 1 then ''+'' else ''-'') @ decimal \<bar>n - 1\<bar>)"

definition number_text :: "real \<Rightarrow> string" where
  "number_text x =
     (if x = 0 then ''0''
      else if x < 0 then ''-'' @ positive_text (- x)
      else positive_text x)"

fun join_comma :: "string list \<Rightarrow> string" where
  "join_comma [] = []"
| "join_comma [x] = x"
| "join_comma (x # y # zs) = x @ '','' @ join_comma (y # zs)"

text \<open>An array is its elements joined by commas, \<^verbatim>\<open>null\<close> and \<^verbatim>\<open>undefined\<close> elements
  being empty; an object is \<^verbatim>\<open>[object Object]\<close>.\<close>

fun ToString :: "js \<Rightarrow> string" where
  "ToString JUndefined = ''undefined''"
| "ToString JNull = ''null''"
| "ToString (JBool b) = (if b then ''true'' else ''false'')"
| "ToString (JNum x) = number_text x"
| "ToString (JStr s) = s"
| "ToString (JArr vs) =
     join_comma (map (\<lambda>v. if v = JUndefined \<or> v = JNull then [] else ToString v) vs)"
| "ToString (JObj fs) = ''[object Object]''"

section \<open>The store gateway\<close>

text \<open>
  Both services import the client handle \<^verbatim>\<open>supabase\<close> and \<^verbatim>\<open>isSupabaseConnected\<close> from
  \<^verbatim>\<open>./supabase\<close>, a thin wrapper of a third-party client library. Neither is modelled:
  both are parameters. An environment gives the answer of \<^verbatim>\<open>isSupabaseConnected()\<close>
  and, for each request the services build with the query builder, what awaiting it
  yields. A store that does not change is one environment.
\<close>

datatype PostgrestError = PostgrestError (message: string)

text \<open>Awaiting a request rejects with an \<^verbatim>\<open>Error\<close> (kept by its message) or resolves
  to \<^verbatim>\<open>{ data, error, count }\<close>.\<close>

datatype 'a outcome = Throws string | Resolves 'a

record 'd response =
  data :: 'd
  error :: "PostgrestError option"
  count :: "nat option"

datatype filter = Eq string string | ILike string string

text \<open>\<^verbatim>\<open>.from(t).select(c)\<close> followed by the filters, \<^verbatim>\<open>.order(col, { ascending })\<close>
  and \<^verbatim>\<open>.limit(n)\<close>.\<close>

record query =
  from_table :: string
  select_columns :: string
  filters :: "filter list"
  order_by :: "(string \<times> bool) option"
  limit_rows :: "nat option"

record gateway =
  select_rows :: "query \<Rightarrow> (js list option) response outcome"
  select_single :: "query \<Rightarrow> js response outcome"
  select_count :: "string \<Rightarrow> (js list option) response outcome"
  insert_single :: "string \<Rightarrow> js list \<Rightarrow> js response outcome"

text \<open>
  \<^item> \<open>select_rows\<close>: awaiting the builder as it is (\<^verbatim>\<open>data\<close> is an array of rows or
    \<^verbatim>\<open>null\<close>);
  \<^item> \<open>select_single\<close>: the builder closed with \<^verbatim>\<open>.single()\<close> (\<^verbatim>\<open>data\<close> is one row or
    \<^verbatim>\<open>null\<close>);
  \<^item> \<open>select_count\<close>: \<^verbatim>\<open>.select('*', { count: 'exact', head: true })\<close>;
  \<^item> \<open>insert_single\<close>: \<^verbatim>\<open>.insert(rows).select().single()\<close>.
\<close>

datatype gw_call =
    SelectRows query
  | SelectSingle query
  | SelectCount string
  | InsertSingle string "js list"

record env =
  isSupabaseConnected :: bool
  supabase :: gateway
  clock :: "nat \<Rightarrow> utc_time"
  api_loaded :: "utc_time \<times> utc_time"
  targeting_loaded :: "utc_time \<times> utc_time"
  template_string :: "js \<Rightarrow> string"
  toLocaleDateString :: "js \<Rightarrow> string"

text \<open>
  \<^item> \<open>clock\<close>: the successive readings of \<^verbatim>\<open>new Date()\<close> after the modules are loaded;
  \<^item> \<open>api_loaded\<close>, \<open>targeting_loaded\<close>: the two readings each module takes when it
    is loaded, for the \<^verbatim>\<open>created_at\<close> and \<^verbatim>\<open>updated_at\<close> of its fallback constant;
  \<^item> \<open>template_string\<close>: the string a value becomes inside a template literal;
  \<^item> \<open>toLocaleDateString\<close>: \<^verbatim>\<open>new Date(v).toLocaleDateString()\<close>, which depends
    on the locale of the process.
\<close>

text \<open>What a call leaves behind: the requests sent to the gateway, in order, and how
  often the clock was read. Console output is not modelled.\<close>

record world =
  calls :: "gw_call list"
  ticks :: nat

definition issue :: "gw_call \<Rightarrow> world \<Rightarrow> world" where
  "issue c st = st\<lparr>calls := calls st @ [c]\<rparr>"

definition new_Date :: "env \<Rightarrow> world \<Rightarrow> utc_time \<times> world" where
  "new_Date e st = (clock e (ticks st), st\<lparr>ticks := Suc (ticks st)\<rparr>)"

section \<open>src/services/api.ts\<close>

text \<open>The field \<^verbatim>\<open>id\<close> of \<^verbatim>\<open>AdCardData\<close> is \<open>ad_id\<close> here, and the \<^verbatim>\<open>error\<close> of a probe's
  result is \<open>error_message\<close>: \<open>id\<close> and \<open>error\<close> are taken.\<close>

record AdCardData =
  ad_id :: js
  date :: js
  competitor_name :: js
  platform :: js
  status :: js
  daily_spend :: js
  daily_impressions :: js
  daily_ctr :: js

definition mockSummaryMetrics :: "env \<Rightarrow> js" where
  "mockSummaryMetrics e = JObj
     [(''id'', JStr ''mock-1''),
      (''total_competitor_spend'', JNum 124300),
      (''active_campaigns_count'', JNum 1247),
      (''total_impressions'', JNum 12400000),
      (''average_ctr'', JNum 0.0342),
      (''platform_distribution'', JObj
         [(''Meta'', JNum 36.5),
          (''Google'', JNum 31.3),
          (''TikTok'', JNum 19.9),
          (''LinkedIn'', JNum 12.4)]),
      (''top_performers'', JArr []),
      (''spend_by_industry'', JObj []),
      (''created_at'', JStr (toISOString (fst (api_loaded e)))),
      (''updated_at'', JStr (toISOString (snd (api_loaded e))))]"

definition mockDailyMetrics :: "AdCardData list" where
  "mockDailyMetrics = []"

definition summary_query :: query where
  "summary_query =
     \<lparr>from_table = ''summary_metrics'', select_columns = ''*'', filters = [],
      order_by = Some (''created_at'', False), limit_rows = Some 1\<rparr>"

definition fetchSummaryMetrics :: "env \<Rightarrow> world \<Rightarrow> js \<times> world" where
  "fetchSummaryMetrics e st =
     (if \<not> isSupabaseConnected e then (mockSummaryMetrics e, st)
      else
        let st' = issue (SelectRows summary_query) st in
        case select_rows (supabase e) summary_query of
          Throws err \<Rightarrow> (mockSummaryMetrics e, st')
        | Resolves r \<Rightarrow>
            (if error r \<noteq> None \<or> data r = None \<or> data r = Some []
             then (mockSummaryMetrics e, st')
             else (case data r of
                     Some (row # rest) \<Rightarrow> (row, st')
                   | _ \<Rightarrow> (mockSummaryMetrics e, st'))))"

text \<open>The select list of the daily query, as the client sends it (white space
  removed).\<close>

definition daily_columns :: string where
  "daily_columns =
     ''id,date,daily_spend,daily_impressions,daily_ctr,competitor:competitor_id(id,name)''"

definition daily_query :: "string \<Rightarrow> query" where
  "daily_query targetDate =
     \<lparr>from_table = ''daily_metrics'', select_columns = daily_columns,
      filters = [Eq ''date'' targetDate],
      order_by = Some (''daily_spend'', False), limit_rows = Some 10\<rparr>"

text \<open>The arrow function given to \<^verbatim>\<open>data.map\<close>; \<open>None\<close> is the TypeError of reading
  \<^verbatim>\<open>row.id\<close> on a row that is \<^verbatim>\<open>null\<close> or \<^verbatim>\<open>undefined\<close>.\<close>

definition row_to_card :: "js \<Rightarrow> AdCardData option" where
  "row_to_card row =
     (if nullish row then None
      else Some
        \<lparr>ad_id = member row ''id'',
         date = member row ''date'',
         competitor_name =
           coalesce (opt_member (member row ''competitor'') ''name'') (JStr ''Unknown''),
         platform = JStr ''Mixed'',
         status = JStr ''ACTIVE'',
         daily_spend = coalesce (member row ''daily_spend'') (JNum 0),
         daily_impressions = coalesce (member row ''daily_impressions'') (JNum 0),
         daily_ctr = coalesce (member row ''daily_ctr'') (JNum 0)\<rparr>)"

text \<open>\<^verbatim>\<open>data.map(f)\<close> inside the \<^verbatim>\<open>try\<close>: the first row on which \<open>f\<close> throws ends the
  whole map.\<close>

fun map_rows :: "js list \<Rightarrow> AdCardData list option" where
  "map_rows [] = Some []"
| "map_rows (row # rows) =
     (case row_to_card row of
        None \<Rightarrow> None
      | Some c \<Rightarrow> (case map_rows rows of None \<Rightarrow> None | Some cs \<Rightarrow> Some (c # cs)))"

text \<open>\<^verbatim>\<open>date || new Date().toISOString().split('T')[0]\<close>: the clock is read only when
  the argument is missing or empty.\<close>

definition targetDate_of :: "env \<Rightarrow> string option \<Rightarrow> world \<Rightarrow> string \<times> world" where
  "targetDate_of e date_arg st =
     (case date_arg of
        Some d \<Rightarrow>
          (if d \<noteq> [] then (d, st)
           else let (now, st') = new_Date e st in (split_first CHR ''T'' (toISOString now), st'))
      | None \<Rightarrow>
          let (now, st') = new_Date e st in (split_first CHR ''T'' (toISOString now), st'))"

definition fetchDailyMetrics :: "env \<Rightarrow> string option \<Rightarrow> world \<Rightarrow> AdCardData list \<times> world" where
  "fetchDailyMetrics e date_arg st =
     (if \<not> isSupabaseConnected e then (mockDailyMetrics, st)
      else
        let (targetDate, st1) = targetDate_of e date_arg st;
            st2 = issue (SelectRows (daily_query targetDate)) st1 in
        case select_rows (supabase e) (daily_query targetDate) of
          Throws err \<Rightarrow> (mockDailyMetrics, st2)
        | Resolves r \<Rightarrow>
            (if error r \<noteq> None then (mockDailyMetrics, st2)
             else case data r of
                    None \<Rightarrow> (mockDailyMetrics, st2)
                  | Some rows \<Rightarrow>
                      (case map_rows rows of
                         None \<Rightarrow> (mockDailyMetrics, st2)
                       | Some cards \<Rightarrow> (cards, st2))))"

record probe =
  connected :: bool
  error_message :: "string option"

record db_probe = probe +
  summaryCount :: nat
  dailyCount :: nat

text \<open>\<^verbatim>\<open>count || 0\<close>\<close>

definition or_zero :: "nat option \<Rightarrow> nat" where
  "or_zero c = (case c of None \<Rightarrow> 0 | Some n \<Rightarrow> n)"

definition db_failed :: "string \<Rightarrow> db_probe" where
  "db_failed msg =
     \<lparr>connected = False, error_message = Some msg, summaryCount = 0, dailyCount = 0\<rparr>"

definition testDatabaseConnection :: "env \<Rightarrow> world \<Rightarrow> db_probe \<times> world" where
  "testDatabaseConnection e st =
     (if \<not> isSupabaseConnected e then (db_failed ''Not connected to Supabase'', st)
      else
        let st1 = issue (SelectCount ''summary_metrics'') st in
        case select_count (supabase e) ''summary_metrics'' of
          Throws msg \<Rightarrow> (db_failed msg, st1)
        | Resolves r1 \<Rightarrow>
            let st2 = issue (SelectCount ''daily_metrics'') st1 in
            (case select_count (supabase e) ''daily_metrics'' of
               Throws msg \<Rightarrow> (db_failed msg, st2)
             | Resolves r2 \<Rightarrow>
                 (\<lparr>connected = True, error_message = None,
                   summaryCount = or_zero (count r1), dailyCount = or_zero (count r2)\<rparr>,
                  st2)))"

section \<open>src/services/targetingIntel.ts\<close>

definition mockTargetingIntelData :: "env \<Rightarrow> js" where
  "mockTargetingIntelData e = JObj
     [(''id'', JStr ''mock-1''),
      (''competitor_id'', JStr ''11111111-1111-1111-1111-111111111111''),
      (''competitor_name'', JStr ''Nike''),
      (''age_distribution'', JObj
         [(''18-24'', JNum 0.15),
          (''25-34'', JNum 0.35),
          (''35-44'', JNum 0.28),
          (''45-54'', JNum 0.15),
          (''55+'', JNum 0.07)]),
      (''gender_distribution'', JObj
         [(''male'', JNum 0.58),
          (''female'', JNum 0.40),
          (''other'', JNum 0.02)]),
      (''geographic_spend'', JObj
         [(''United States'', JObj [(''spend'', JNum 18200), (''percentage'', JNum 45)]),
          (''United Kingdom'', JObj [(''spend'', JNum 8900), (''percentage'', JNum 22)]),
          (''Canada'', JObj [(''spend'', JNum 6100), (''percentage'', JNum 15)]),
          (''Australia'', JObj [(''spend'', JNum 4000), (''percentage'', JNum 10)]),
          (''Germany'', JObj [(''spend'', JNum 3200), (''percentage'', JNum 8)])]),
      (''interest_clusters'', JArr
         [JObj [(''interest'', JStr ''Fitness & Running''), (''affinity'', JNum 0.95), (''reach'', JNum 450000)],
          JObj [(''interest'', JStr ''Athletic Apparel''), (''affinity'', JNum 0.88), (''reach'', JNum 380000)],
          JObj [(''interest'', JStr ''Health & Wellness''), (''affinity'', JNum 0.82), (''reach'', JNum 520000)],
          JObj [(''interest'', JStr ''Sports Equipment''), (''affinity'', JNum 0.78), (''reach'', JNum 290000)],
          JObj [(''interest'', JStr ''Marathon Training''), (''affinity'', JNum 0.92), (''reach'', JNum 180000)],
          JObj [(''interest'', JStr ''Outdoor Activities''), (''affinity'', JNum 0.75), (''reach'', JNum 610000)]]),
      (''funnel_stage_prediction'', JObj
         [(''awareness'', JObj [(''label'', JStr ''Cold Traffic''), (''percentage'', JNum 45), (''reach'', JNum 2100000)]),
          (''consideration'', JObj [(''label'', JStr ''Engagement''), (''percentage'', JNum 30), (''reach'', JNum 1400000)]),
          (''conversion'', JObj [(''label'', JStr ''Retargeting''), (''percentage'', JNum 20), (''reach'', JNum 940000)]),
          (''retention'', JObj [(''label'', JStr ''Loyalty''), (''percentage'', JNum 5), (''reach'', JNum 235000)])]),
      (''bidding_strategy'', JObj
         [(''hourly'', JArr
            [JObj [(''time'', JStr ''12am''), (''cpc'', JNum 1.1), (''cpm'', JNum 8.2)],
             JObj [(''time'', JStr ''3am''), (''cpc'', JNum 0.9), (''cpm'', JNum 6.8)],
             JObj [(''time'', JStr ''6am''), (''cpc'', JNum 1.6), (''cpm'', JNum 10.1)],
             JObj [(''time'', JStr ''9am''), (''cpc'', JNum 2.0), (''cpm'', JNum 12.4)],
             JObj [(''time'', JStr ''12pm''), (''cpc'', JNum 2.4), (''cpm'', JNum 14.2)],
             JObj [(''time'', JStr ''3pm''), (''cpc'', JNum 2.2), (''cpm'', JNum 13.5)],
             JObj [(''time'', JStr ''6pm''), (''cpc'', JNum 2.8), (''cpm'', JNum 15.6)],
             JObj [(''time'', JStr ''9pm''), (''cpc'', JNum 1.9), (''cpm'', JNum 11.3)]]),
          (''avg_cpc'', JNum 2.16),
          (''peak_cpm'', JObj [(''value'', JNum 15.6), (''window'', JStr ''6pm-9pm'')]),
          (''best_time'', JStr ''3am-6am'')]),
      (''advanced_targeting'', JObj
         [(''purchase_intent'', JObj [(''level'', JStr ''High''), (''confidence'', JNum 0.62)]),
          (''ai_recommendation'', JStr
             ''Focus 60% of budget on awareness to fill top funnel. Strong retargeting opportunity observed.''),
          (''device_preference'', JObj
             [(''mobile'', JNum 0.78), (''desktop'', JNum 0.22), (''ios_share'', JNum 0.65)]),
          (''competitor_overlap'', JObj
             [(''brands'', JNum 3.2),
              (''description'', JStr ''Audience overlaps with similar athletic brands'')])]),
      (''data_source'', JStr ''AI_MODELED''),
      (''confidence_score'', JNum 0.75),
      (''created_at'', JStr (toISOString (fst (targeting_loaded e)))),
      (''updated_at'', JStr (toISOString (snd (targeting_loaded e))))]"

definition all_targeting_query :: query where
  "all_targeting_query =
     \<lparr>from_table = ''targeting_intel'', select_columns = ''*'', filters = [],
      order_by = Some (''created_at'', False), limit_rows = None\<rparr>"

definition fetchAllTargetingIntel :: "env \<Rightarrow> world \<Rightarrow> js list \<times> world" where
  "fetchAllTargetingIntel e st =
     (if \<not> isSupabaseConnected e then ([mockTargetingIntelData e], st)
      else
        let st' = issue (SelectRows all_targeting_query) st in
        case select_rows (supabase e) all_targeting_query of
          Throws err \<Rightarrow> ([mockTargetingIntelData e], st')
        | Resolves r \<Rightarrow>
            (if error r \<noteq> None then ([mockTargetingIntelData e], st')
             else case data r of
                    None \<Rightarrow> ([mockTargetingIntelData e], st')
                  | Some rows \<Rightarrow>
                      (if rows = [] then ([mockTargetingIntelData e], st')
                       else (rows, st'))))"

text \<open>The three single-record readers share their body after the request: an error
  gives the fallback, a missing \<^verbatim>\<open>data\<close> gives \<^verbatim>\<open>null\<close>, anything else is returned as
  it came.\<close>

definition single_result :: "env \<Rightarrow> js response outcome \<Rightarrow> js" where
  "single_result e out =
     (case out of
        Throws err \<Rightarrow> mockTargetingIntelData e
      | Resolves r \<Rightarrow>
          (if error r \<noteq> None then mockTargetingIntelData e
           else if falsy (data r) then JNull
           else data r))"

definition by_id_query :: "string \<Rightarrow> query" where
  "by_id_query competitorId =
     \<lparr>from_table = ''targeting_intel'', select_columns = ''*'',
      filters = [Eq ''competitor_id'' competitorId],
      order_by = None, limit_rows = None\<rparr>"

definition fetchTargetingIntelByCompetitorId :: "env \<Rightarrow> string \<Rightarrow> world \<Rightarrow> js \<times> world" where
  "fetchTargetingIntelByCompetitorId e competitorId st =
     (if \<not> isSupabaseConnected e then (mockTargetingIntelData e, st)
      else
        (single_result e (select_single (supabase e) (by_id_query competitorId)),
         issue (SelectSingle (by_id_query competitorId)) st))"

definition latest_query :: query where
  "latest_query =
     \<lparr>from_table = ''targeting_intel'', select_columns = ''*'', filters = [],
      order_by = Some (''created_at'', False), limit_rows = Some 1\<rparr>"

definition fetchLatestTargetingIntel :: "env \<Rightarrow> world \<Rightarrow> js \<times> world" where
  "fetchLatestTargetingIntel e st =
     (if \<not> isSupabaseConnected e then (mockTargetingIntelData e, st)
      else
        (single_result e (select_single (supabase e) latest_query),
         issue (SelectSingle latest_query) st))"

text \<open>The pattern of the name lookup is the template literal
  \<^verbatim>\<open>`%${competitorName}%`\<close>.\<close>

definition by_name_query :: "string \<Rightarrow> query" where
  "by_name_query competitorName =
     \<lparr>from_table = ''targeting_intel'', select_columns = ''*'',
      filters = [ILike ''competitor_name'' (''%'' @ competitorName @ ''%'')],
      order_by = Some (''created_at'', False), limit_rows = Some 1\<rparr>"

definition fetchTargetingIntelByCompetitorName :: "env \<Rightarrow> string \<Rightarrow> world \<Rightarrow> js \<times> world" where
  "fetchTargetingIntelByCompetitorName e competitorName st =
     (if \<not> isSupabaseConnected e then (mockTargetingIntelData e, st)
      else
        (single_result e (select_single (supabase e) (by_name_query competitorName)),
         issue (SelectSingle (by_name_query competitorName)) st))"

text \<open>The row sent by \<^verbatim>\<open>createTargetingIntel\<close>:
  \<^verbatim>\<open>{ ...data, created_at: new Date().toISOString(), updated_at: new Date().toISOString() }\<close>.
  The argument is an object, given by its properties.\<close>

definition stamped :: "(string \<times> js) list \<Rightarrow> utc_time \<Rightarrow> utc_time \<Rightarrow> js" where
  "stamped input t1 t2 =
     JObj (obj_set ''updated_at'' (JStr (toISOString t2))
            (obj_set ''created_at'' (JStr (toISOString t1)) input))"

text \<open>After a response without error the success message reads
  \<^verbatim>\<open>result.competitor_name\<close>; on a \<^verbatim>\<open>result\<close> that is \<^verbatim>\<open>null\<close> or \<^verbatim>\<open>undefined\<close> this
  throws, and the \<^verbatim>\<open>catch\<close> returns \<^verbatim>\<open>null\<close>.\<close>

definition createTargetingIntel :: "env \<Rightarrow> (string \<times> js) list \<Rightarrow> world \<Rightarrow> js \<times> world" where
  "createTargetingIntel e input st =
     (if \<not> isSupabaseConnected e then (JNull, st)
      else
        let (t1, st1) = new_Date e st;
            (t2, st2) = new_Date e st1;
            row = stamped input t1 t2;
            st3 = issue (InsertSingle ''targeting_intel'' [row]) st2 in
        case insert_single (supabase e) ''targeting_intel'' [row] of
          Throws err \<Rightarrow> (JNull, st3)
        | Resolves r \<Rightarrow>
            (if error r \<noteq> None then (JNull, st3)
             else if nullish (data r) then (JNull, st3)
             else (data r, st3)))"

text \<open>The row a call of \<^verbatim>\<open>createTargetingIntel\<close> sends from a given world: stamped
  with the next two readings of the clock.\<close>

definition sent_row :: "env \<Rightarrow> (string \<times> js) list \<Rightarrow> world \<Rightarrow> js" where
  "sent_row e input st = stamped input (clock e (ticks st)) (clock e (Suc (ticks st)))"

record ti_probe = probe +
  recordCount :: nat
  latestRecord :: "string option"

definition ti_failed :: "string \<Rightarrow> ti_probe" where
  "ti_failed msg =
     \<lparr>connected = False, error_message = Some msg, recordCount = 0, latestRecord = None\<rparr>"

definition latest_label_query :: query where
  "latest_label_query =
     \<lparr>from_table = ''targeting_intel'', select_columns = ''competitor_name,created_at'',
      filters = [], order_by = Some (''created_at'', False), limit_rows = Some 1\<rparr>"

text \<open>\<^verbatim>\<open>`${latestData.competitor_name} (${new Date(latestData.created_at).toLocaleDateString()})`\<close>\<close>

definition latest_label :: "env \<Rightarrow> js \<Rightarrow> string" where
  "latest_label e latestData =
     template_string e (member latestData ''competitor_name'')
     @ '' ('' @ toLocaleDateString e (member latestData ''created_at'') @ '')''"

definition testTargetingIntelConnection :: "env \<Rightarrow> world \<Rightarrow> ti_probe \<times> world" where
  "testTargetingIntelConnection e st =
     (if \<not> isSupabaseConnected e then (ti_failed ''Not connected to Supabase'', st)
      else
        let st1 = issue (SelectCount ''targeting_intel'') st in
        case select_count (supabase e) ''targeting_intel'' of
          Throws msg \<Rightarrow> (ti_failed msg, st1)
        | Resolves rc \<Rightarrow>
            (case error rc of
               Some countError \<Rightarrow> (ti_failed (message countError), st1)
             | None \<Rightarrow>
                 let st2 = issue (SelectSingle latest_label_query) st1 in
                 (case select_single (supabase e) latest_label_query of
                    Throws msg \<Rightarrow> (ti_failed msg, st2)
                  | Resolves rl \<Rightarrow>
                      (\<lparr>connected = True, error_message = None,
                        recordCount = or_zero (count rc),
                        latestRecord =
                          (if falsy (data rl) then None
                           else Some (latest_label e (data rl)))\<rparr>,
                       st2))))"

section \<open>Predicates of the statements\<close>

text \<open>
  \<^item> \<open>spend_descending\<close>: a list of cards is sorted by \<^verbatim>\<open>daily_spend\<close>, largest first
    (each card against every later one, both numbers);
  \<^item> \<open>populated\<close>: a value has each of the named fields, none \<^verbatim>\<open>null\<close> or
    \<^verbatim>\<open>undefined\<close>;
  \<^item> \<open>iso8601_utc\<close>: the shape \<^verbatim>\<open>dddd-dd-ddTdd:dd:dd.dddZ\<close>;
  \<^item> \<open>echoes\<close>: the row the store reports back carries every property of the row sent
    (it may carry more, such as the \<^verbatim>\<open>id\<close> it assigned).
\<close>

fun num_ge :: "js \<Rightarrow> js \<Rightarrow> bool" where
  "num_ge (JNum x) (JNum y) = (y \<le> x)"
| "num_ge _ _ = False"

definition spend_descending :: "AdCardData list \<Rightarrow> bool" where
  "spend_descending cards = sorted_wrt (\<lambda>a b. num_ge (daily_spend a) (daily_spend b)) cards"

definition populated :: "string list \<Rightarrow> js \<Rightarrow> bool" where
  "populated ks v = list_all (\<lambda>k. \<not> nullish (member v k)) ks"

definition SummaryMetrics_fields :: "string list" where
  "SummaryMetrics_fields =
     [''id'', ''total_competitor_spend'', ''active_campaigns_count'', ''total_impressions'',
      ''average_ctr'', ''platform_distribution'', ''top_performers'', ''spend_by_industry'',
      ''created_at'', ''updated_at'']"

definition is_digit :: "char \<Rightarrow> bool" where
  "is_digit c = (c \<in> set ''0123456789'')"

definition iso8601_utc :: "string \<Rightarrow> bool" where
  "iso8601_utc s =
     (length s = 24
      \<and> list_all (\<lambda>i. is_digit (s ! i)) [0, 1, 2, 3, 5, 6, 8, 9, 11, 12, 14, 15, 17, 18, 20, 21, 22]
      \<and> s ! 4 = CHR ''-'' \<and> s ! 7 = CHR ''-'' \<and> s ! 10 = CHR ''T''
      \<and> s ! 13 = CHR '':'' \<and> s ! 16 = CHR '':'' \<and> s ! 19 = CHR ''.'' \<and> s ! 23 = CHR ''Z'')"

definition echoes :: "js \<Rightarrow> js \<Rightarrow> bool" where
  "echoes sent got =
     (case sent of
        JObj fs \<Rightarrow> list_all (\<lambda>(k, v). member got k = member sent k) fs
      | _ \<Rightarrow> False)"

text \<open>The answer of a request closed with \<^verbatim>\<open>.single()\<close>: one row, or an error. A
  result of zero rows is an error of the client (code \<^verbatim>\<open>PGRST116\<close>), never
  \<^verbatim>\<open>{ data: null, error: null }\<close>.\<close>

definition row_or_error :: "js response \<Rightarrow> bool" where
  "row_or_error r = (case error r of Some err \<Rightarrow> True | None \<Rightarrow> \<not> falsy (data r))"

text \<open>What the arrow function of \<^verbatim>\<open>fetchDailyMetrics\<close> promises of a card, given the
  row it was built from.\<close>

definition card_defaults :: "js \<Rightarrow> AdCardData \<Rightarrow> bool" where
  "card_defaults row c =
     (ad_id c = member row ''id''
      \<and> date c = member row ''date''
      \<and> competitor_name c =
          (if nullish (member row ''competitor'')
              \<or> nullish (member (member row ''competitor'') ''name'')
           then JStr ''Unknown'' else member (member row ''competitor'') ''name'')
      \<and> platform c = JStr ''Mixed''
      \<and> status c = JStr ''ACTIVE''
      \<and> daily_spend c =
          (if nullish (member row ''daily_spend'') then JNum 0 else member row ''daily_spend'')
      \<and> daily_impressions c =
          (if nullish (member row ''daily_impressions'') then JNum 0
           else member row ''daily_impressions'')
      \<and> daily_ctr c =
          (if nullish (member row ''daily_ctr'') then JNum 0 else member row ''daily_ctr''))"

section \<open>Concrete stores and clocks\<close>

definition at_time :: "nat \<Rightarrow> nat \<Rightarrow> nat \<Rightarrow> nat \<Rightarrow> nat \<Rightarrow> nat \<Rightarrow> nat \<Rightarrow> utc_time" where
  "at_time y mo d h mi s ms =
     \<lparr>utc_year = y, utc_month = mo, utc_day = d, utc_hours = h, utc_minutes = mi,
      utc_seconds = s, utc_millis = ms\<rparr>"

definition morning_clock :: "nat \<Rightarrow> utc_time" where
  "morning_clock n = at_time 2024 1 15 9 30 5 (42 + n)"

text \<open>A clock whose first reading is the last millisecond of 15 January 2024 and whose
  later readings fall on the 16th.\<close>

definition midnight_clock :: "nat \<Rightarrow> utc_time" where
  "midnight_clock n =
     (if n = 0 then at_time 2024 1 15 23 59 59 999 else at_time 2024 1 16 0 0 0 n)"

definition no_rows :: "(js list option) response" where
  "no_rows = \<lparr>data = Some [], error = None, count = None\<rparr>"


definition counted :: "nat \<Rightarrow> (js list option) response" where
  "counted n = \<lparr>data = None, error = None, count = Some n\<rparr>"

definition refused :: "string \<Rightarrow> 'd \<Rightarrow> 'd response" where
  "refused msg d = \<lparr>data = d, error = Some (PostgrestError msg), count = None\<rparr>"

text \<open>What a request closed with \<^verbatim>\<open>.single()\<close> resolves to when the result is not
  exactly one row: no data and the error with code \<^verbatim>\<open>PGRST116\<close>, the code that
  \<^verbatim>\<open>AuthContext.tsx\<close> tests for.\<close>

definition no_single_row :: "js response" where
  "no_single_row = refused ''JSON object requested, multiple (or no) rows returned'' JNull"

text \<open>A store whose tables are empty: every select finds nothing (which a single-row
  request reports as an error), every count is 0; an insert reports the row back with
  an \<^verbatim>\<open>id\<close>.\<close>

definition empty_store :: gateway where
  "empty_store =
     \<lparr>select_rows = (\<lambda>q. Resolves no_rows),
      select_single = (\<lambda>q. Resolves no_single_row),
      select_count = (\<lambda>t. Resolves (counted 0)),
      insert_single = (\<lambda>t rows. Resolves
         \<lparr>data = (case rows of
                    [JObj fs] \<Rightarrow> JObj (obj_set ''id'' (JStr ''new-1'') fs)
                  | _ \<Rightarrow> JNull),
          error = None, count = None\<rparr>)\<rparr>"

definition env_of :: "bool \<Rightarrow> gateway \<Rightarrow> (nat \<Rightarrow> utc_time) \<Rightarrow> env" where
  "env_of up gw clk =
     \<lparr>isSupabaseConnected = up, supabase = gw, clock = clk,
      api_loaded = (at_time 2024 1 15 9 0 0 1, at_time 2024 1 15 9 0 0 2),
      targeting_loaded = (at_time 2024 1 15 9 0 0 3, at_time 2024 1 15 9 0 0 4),
      template_string = ToString,
      toLocaleDateString = (\<lambda>v. ''1/15/2024'')\<rparr>"

definition fresh :: world where
  "fresh = \<lparr>calls = [], ticks = 0\<rparr>"

definition offline :: env where
  "offline = env_of False empty_store morning_clock"

definition nike_running :: js where
  "nike_running = JObj
     [(''id'', JStr ''ti-7''),
      (''competitor_id'', JStr ''c-7''),
      (''competitor_name'', JStr ''Nike Running''),
      (''confidence_score'', JNum 0.9),
      (''created_at'', JStr ''2024-01-15T08:00:00.000Z'')]"

text \<open>A store whose only targeting record is the row of Nike Running: it answers the
  name lookup for \<^verbatim>\<open>Nike\<close>, the id lookup for \<^verbatim>\<open>c-7\<close> and the lookup of the latest
  record with that row; every other single-row lookup finds no row.\<close>

definition nike_store :: gateway where
  "nike_store = empty_store
     \<lparr>select_rows := (\<lambda>q. if q = all_targeting_query
                         then Resolves \<lparr>data = Some [nike_running], error = None, count = None\<rparr>
                         else Resolves no_rows),
      select_single := (\<lambda>q. if q = by_name_query ''Nike'' \<or> q = by_id_query ''c-7''
                              \<or> q = latest_query
                           then Resolves \<lparr>data = nike_running, error = None, count = None\<rparr>
                           else Resolves no_single_row)\<rparr>"

definition daily_row :: "string \<Rightarrow> js \<Rightarrow> js \<Rightarrow> js" where
  "daily_row i spend competitor = JObj
     [(''id'', JStr i),
      (''date'', JStr ''2024-01-15''),
      (''daily_spend'', spend),
      (''daily_impressions'', JNum 12000),
      (''daily_ctr'', JNull),
      (''platform'', JStr ''Meta''),
      (''status'', JStr ''PAUSED''),
      (''competitor'', competitor)]"

text \<open>Daily metrics for 15 January 2024 only: two rows with their spend, in
  descending order.\<close>

definition daily_store :: gateway where
  "daily_store = empty_store
     \<lparr>select_rows := (\<lambda>q. if q = daily_query ''2024-01-15''
          then Resolves
            \<lparr>data = Some
               [daily_row ''d-1'' (JNum 900) (JObj [(''id'', JStr ''c-7''), (''name'', JStr ''Nike'')]),
                daily_row ''d-2'' (JNum 500) JNull],
             error = None, count = None\<rparr>
          else Resolves no_rows)\<rparr>"

text \<open>The same day with a row whose spend is \<^verbatim>\<open>null\<close>: in the descending order of
  the store, which places missing values first unless asked otherwise, it comes before
  the row that spent 500.\<close>

definition missing_spend_store :: gateway where
  "missing_spend_store = empty_store
     \<lparr>select_rows := (\<lambda>q. if q = daily_query ''2024-01-15''
          then Resolves
            \<lparr>data = Some
               [daily_row ''d-3'' JNull JNull,
                daily_row ''d-2'' (JNum 500) JNull],
             error = None, count = None\<rparr>
          else Resolves no_rows)\<rparr>"

text \<open>A \<^verbatim>\<open>summary_metrics\<close> table whose latest row has no spend and no impressions yet
  (the columns are \<^verbatim>\<open>null\<close>).\<close>

definition sparse_summary :: js where
  "sparse_summary = JObj
     [(''id'', JStr ''s-1''),
      (''total_competitor_spend'', JNull),
      (''active_campaigns_count'', JNum 3),
      (''total_impressions'', JNull),
      (''average_ctr'', JNum 0.02),
      (''platform_distribution'', JObj []),
      (''top_performers'', JArr []),
      (''spend_by_industry'', JObj []),
      (''created_at'', JStr ''2024-01-14T23:00:00.000Z''),
      (''updated_at'', JStr ''2024-01-14T23:00:00.000Z'')]"

definition sparse_store :: gateway where
  "sparse_store = empty_store
     \<lparr>select_rows := (\<lambda>q. Resolves \<lparr>data = Some [sparse_summary], error = None, count = None\<rparr>)\<rparr>"

text \<open>A store that refuses every insert.\<close>

definition readonly_store :: gateway where
  "readonly_store = empty_store
     \<lparr>insert_single := (\<lambda>t rows. Resolves
        (refused ''new row violates row-level security policy'' JNull))\<rparr>"

text \<open>A store on which counting is refused for every table but \<^verbatim>\<open>daily_metrics\<close>,
  which holds 7 rows.\<close>

definition count_refused_store :: gateway where
  "count_refused_store = empty_store
     \<lparr>select_count := (\<lambda>t. if t = ''daily_metrics''
          then Resolves (counted 7)
          else Resolves (refused (''permission denied for table '' @ t) None))\<rparr>"

text \<open>A store with 3 targeting records on which the single-row query for the latest
  record is refused.\<close>

definition latest_refused_store :: gateway where
  "latest_refused_store = empty_store
     \<lparr>select_count := (\<lambda>t. Resolves (counted 3)),
      select_single := (\<lambda>q. Resolves
         (refused ''canceling statement due to statement timeout'' JNull))\<rparr>"

definition new_intel :: "(string \<times> js) list" where
  "new_intel =
     [(''competitor_id'', JStr ''c-9''),
      (''competitor_name'', JStr ''Puma''),
      (''confidence_score'', JNum 0.5)]"

section \<open>Lemmas\<close>

lemma digit_is_digit: "is_digit (digit n)"
proof -
  have "n mod 10 < length ''0123456789''" by simp
  then show ?thesis unfolding is_digit_def digit_def by (rule nth_mem)
qed

lemma toISOString_shape: "utc_year t \<le> 9999 \<Longrightarrow> iso8601_utc (toISOString t)"
  by (simp add: iso8601_utc_def toISOString_def pad2_def pad3_def pad4_def digit_is_digit)

lemma map_of_obj_set_same: "map_of (obj_set k v fs) k = Some v"
  by (induction fs) auto

lemma map_of_obj_set_other: "k' \<noteq> k \<Longrightarrow> map_of (obj_set k v fs) k' = map_of fs k'"
  by (induction fs) auto

lemma stamped_created: "member (stamped input t1 t2) ''created_at'' = JStr (toISOString t1)"
  by (simp add: stamped_def map_of_obj_set_same map_of_obj_set_other)

lemma stamped_updated: "member (stamped input t1 t2) ''updated_at'' = JStr (toISOString t2)"
  by (simp add: stamped_def map_of_obj_set_same map_of_obj_set_other)

lemma echoes_member:
  assumes "echoes (JObj fs) got" and "map_of fs k = Some v"
  shows "member got k = v"
proof -
  from assms(2) have "(k, v) \<in> set fs" by (rule map_of_SomeD)
  with assms(1) have "member got k = member (JObj fs) k"
    by (auto simp: echoes_def list_all_iff)
  with assms(2) show ?thesis by simp
qed

lemma echoes_stamped_created:
  "echoes (stamped input t1 t2) got \<Longrightarrow> member got ''created_at'' = JStr (toISOString t1)"
  unfolding stamped_def
  by (erule echoes_member) (simp add: map_of_obj_set_same map_of_obj_set_other)

lemma echoes_stamped_updated:
  "echoes (stamped input t1 t2) got \<Longrightarrow> member got ''updated_at'' = JStr (toISOString t2)"
  unfolding stamped_def
  by (erule echoes_member) (simp add: map_of_obj_set_same)


lemmas store_defs =
  env_of_def empty_store_def nike_store_def daily_store_def missing_spend_store_def
  sparse_store_def readonly_store_def count_refused_store_def latest_refused_store_def
  offline_def fresh_def no_rows_def no_single_row_def counted_def refused_def
  morning_clock_def midnight_clock_def at_time_def

lemmas query_defs =
  summary_query_def daily_query_def daily_columns_def all_targeting_query_def
  by_id_query_def by_name_query_def latest_query_def latest_label_query_def

lemmas time_defs = toISOString_def pad2_def pad3_def pad4_def digit_def split_first_def

lemma mock_not_null: "mockTargetingIntelData e \<noteq> JNull"
  by (simp add: mockTargetingIntelData_def)

section \<open>The read operations without a gateway\<close>

text \<open>
  C1. When \<^verbatim>\<open>isSupabaseConnected()\<close> is false, each of the six read operations returns
  its fallback value: the constant \<open>mockSummaryMetrics\<close>, the empty list
  \<open>mockDailyMetrics\<close>, the one-element list holding \<open>mockTargetingIntelData\<close>, and
  \<open>mockTargetingIntelData\<close> itself for the three single-record readers. Each returns
  the world it was given: no request is added to the gateway's calls and the clock is
  not read.
\<close>

theorem fallback_when_unavailable:
  assumes "\<not> isSupabaseConnected e"
  shows "fetchSummaryMetrics e st = (mockSummaryMetrics e, st)
       \<and> fetchDailyMetrics e d st = (mockDailyMetrics, st)
       \<and> fetchAllTargetingIntel e st = ([mockTargetingIntelData e], st)
       \<and> fetchTargetingIntelByCompetitorId e competitorId st = (mockTargetingIntelData e, st)
       \<and> fetchTargetingIntelByCompetitorName e competitorName st = (mockTargetingIntelData e, st)
       \<and> fetchLatestTargetingIntel e st = (mockTargetingIntelData e, st)"
  using assms
  by (simp add: fetchSummaryMetrics_def fetchDailyMetrics_def fetchAllTargetingIntel_def
        fetchTargetingIntelByCompetitorId_def fetchTargetingIntelByCompetitorName_def
        fetchLatestTargetingIntel_def)

theorem fallback_when_unavailable_witness:
  "\<not> isSupabaseConnected offline
   \<and> fetchSummaryMetrics offline fresh = (mockSummaryMetrics offline, fresh)
   \<and> fetchDailyMetrics offline None fresh = ([], fresh)
   \<and> fetchDailyMetrics offline (Some ''2024-01-15'') fresh = ([], fresh)
   \<and> fetchAllTargetingIntel offline fresh = ([mockTargetingIntelData offline], fresh)
   \<and> fetchTargetingIntelByCompetitorId offline ''c-7'' fresh = (mockTargetingIntelData offline, fresh)
   \<and> fetchTargetingIntelByCompetitorName offline ''Nike'' fresh = (mockTargetingIntelData offline, fresh)
   \<and> fetchLatestTargetingIntel offline fresh = (mockTargetingIntelData offline, fresh)
   \<and> calls fresh = []"
proof -
  have off: "\<not> isSupabaseConnected offline" by (simp add: offline_def env_of_def)
  show ?thesis
    using off
      fallback_when_unavailable [OF off, of fresh None "''c-7''" "''Nike''"]
      fallback_when_unavailable [OF off, of fresh "Some ''2024-01-15''" "''c-7''" "''Nike''"]
    by (simp add: mockDailyMetrics_def fresh_def)
qed

section \<open>Lookup by competitor name\<close>

text \<open>
  C2 holds in its first half and fails in its second.
  \<^verbatim>\<open>fetchTargetingIntelByCompetitorName('Nike')\<close> sends one request, \<^verbatim>\<open>ILIKE\<close> on
  \<^verbatim>\<open>competitor_name\<close> with the pattern \<^verbatim>\<open>%Nike%\<close>, most recent first, limit 1, closed
  with \<^verbatim>\<open>.single()\<close>; on the store that holds the row of Nike Running it returns that
  row. On an empty store the request resolves to no data and the error of
  \<^verbatim>\<open>.single()\<close> for zero rows; \<^verbatim>\<open>if (error)\<close> comes first and the result is the fallback
  constant, not \<^verbatim>\<open>null\<close>. The branch \<^verbatim>\<open>if (!data) { ... return null; }\<close> that follows,
  with its message \<^verbatim>\<open>No targeting data found\<close>, is never reached for a miss.
\<close>

theorem by_name_miss_returns_fallback:
  "select_single (supabase (env_of True empty_store morning_clock))
     \<lparr>from_table = ''targeting_intel'', select_columns = ''*'',
      filters = [ILike ''competitor_name'' ''%Nike%''],
      order_by = Some (''created_at'', False), limit_rows = Some 1\<rparr>
     = Resolves \<lparr>data = JNull,
         error = Some (PostgrestError ''JSON object requested, multiple (or no) rows returned''),
         count = None\<rparr>
   \<and> calls (snd (fetchTargetingIntelByCompetitorName (env_of True empty_store morning_clock)
                   ''Nike'' fresh))
     = [SelectSingle
          \<lparr>from_table = ''targeting_intel'', select_columns = ''*'',
           filters = [ILike ''competitor_name'' ''%Nike%''],
           order_by = Some (''created_at'', False), limit_rows = Some 1\<rparr>]
   \<and> fst (fetchTargetingIntelByCompetitorName (env_of True empty_store morning_clock)
            ''Nike'' fresh)
     = mockTargetingIntelData (env_of True empty_store morning_clock)
   \<and> member (fst (fetchTargetingIntelByCompetitorName (env_of True empty_store morning_clock)
                    ''Nike'' fresh)) ''competitor_name''
     = JStr ''Nike''
   \<and> fst (fetchTargetingIntelByCompetitorName (env_of True empty_store morning_clock)
            ''Nike'' fresh)
     \<noteq> JNull
   \<and> fst (fetchTargetingIntelByCompetitorName (env_of True nike_store morning_clock)
            ''Nike'' fresh)
     = nike_running
   \<and> member nike_running ''competitor_name'' = JStr ''Nike Running''"
  by (simp add: fetchTargetingIntelByCompetitorName_def single_result_def issue_def
        store_defs query_defs nike_running_def mockTargetingIntelData_def)

section \<open>Lookup by competitor id\<close>

text \<open>
  C3. \<^verbatim>\<open>fetchTargetingIntelByCompetitorId\<close> sends one request, \<^verbatim>\<open>competitor_id\<close> equal to
  the id, closed with \<^verbatim>\<open>.single()\<close>. Whenever the answer to it is what \<^verbatim>\<open>.single()\<close>
  gives, one row or an error, the result is never \<^verbatim>\<open>null\<close>: it is the row the store
  answered with for that id, which is returned as it came, or the fallback constant;
  and it is the fallback constant when the gateway is unavailable, when the request
  throws and when it reports an error, as it does when the store has no row for the
  id.
\<close>

theorem by_id_never_null:
  assumes "\<forall>r. select_single (supabase e) (by_id_query competitorId) = Resolves r
                \<longrightarrow> row_or_error r"
  shows "fst (fetchTargetingIntelByCompetitorId e competitorId st) \<noteq> JNull
       \<and> (fst (fetchTargetingIntelByCompetitorId e competitorId st) = mockTargetingIntelData e
           \<or> (isSupabaseConnected e
                \<and> (\<exists>r. select_single (supabase e) (by_id_query competitorId) = Resolves r
                       \<and> error r = None
                       \<and> data r = fst (fetchTargetingIntelByCompetitorId e competitorId st))))
       \<and> (\<not> isSupabaseConnected e
            \<or> (\<exists>err. select_single (supabase e) (by_id_query competitorId) = Throws err)
            \<or> (\<exists>r. select_single (supabase e) (by_id_query competitorId) = Resolves r
                   \<and> error r \<noteq> None)
          \<longrightarrow> fst (fetchTargetingIntelByCompetitorId e competitorId st)
                = mockTargetingIntelData e)
       \<and> (\<forall>r. isSupabaseConnected e
              \<and> select_single (supabase e) (by_id_query competitorId) = Resolves r
              \<and> error r = None
            \<longrightarrow> fst (fetchTargetingIntelByCompetitorId e competitorId st) = data r)
       \<and> (isSupabaseConnected e
          \<longrightarrow> calls (snd (fetchTargetingIntelByCompetitorId e competitorId st))
                = calls st @
                  [SelectSingle
                     \<lparr>from_table = ''targeting_intel'', select_columns = ''*'',
                      filters = [Eq ''competitor_id'' competitorId],
                      order_by = None, limit_rows = None\<rparr>])"
proof (cases "isSupabaseConnected e")
  case False
  then show ?thesis
    using mock_not_null [of e] by (simp add: fetchTargetingIntelByCompetitorId_def)
next
  case True
  show ?thesis
  proof (cases "select_single (supabase e) (by_id_query competitorId)")
    case (Throws err)
    with True show ?thesis
      using mock_not_null [of e]
      by (simp add: fetchTargetingIntelByCompetitorId_def single_result_def issue_def
            by_id_query_def)
  next
    case (Resolves r)
    with assms have "row_or_error r" by simp
    with True Resolves show ?thesis
      using mock_not_null [of e]
      by (auto simp: fetchTargetingIntelByCompetitorId_def single_result_def issue_def
            by_id_query_def row_or_error_def split: option.splits)
  qed
qed

theorem by_id_never_null_witness:
  "fst (fetchTargetingIntelByCompetitorId (env_of True nike_store morning_clock) ''c-7'' fresh)
     = nike_running
   \<and> member nike_running ''competitor_id'' = JStr ''c-7''
   \<and> select_single (supabase (env_of True nike_store morning_clock)) (by_id_query ''c-404'')
     = Resolves no_single_row
   \<and> fst (fetchTargetingIntelByCompetitorId (env_of True nike_store morning_clock) ''c-404'' fresh)
     = mockTargetingIntelData (env_of True nike_store morning_clock)
   \<and> fst (fetchTargetingIntelByCompetitorId (env_of True nike_store morning_clock) ''c-404'' fresh)
     \<noteq> JNull
   \<and> fst (fetchTargetingIntelByCompetitorId offline ''c-7'' fresh)
     = mockTargetingIntelData offline"
proof -
  let ?nike = "env_of True nike_store morning_clock"
  let ?found = "\<lparr>data = nike_running, error = None, count = None\<rparr>"
  have hit: "select_single (supabase ?nike) (by_id_query ''c-7'') = Resolves ?found"
    by (simp add: store_defs)
  have miss: "select_single (supabase ?nike) (by_id_query ''c-404'') = Resolves no_single_row"
    by (simp add: store_defs query_defs)
  have hit_ok: "\<forall>r. select_single (supabase ?nike) (by_id_query ''c-7'') = Resolves r
                  \<longrightarrow> row_or_error r"
    unfolding hit by (simp add: row_or_error_def nike_running_def)
  have miss_ok: "\<forall>r. select_single (supabase ?nike) (by_id_query ''c-404'') = Resolves r
                  \<longrightarrow> row_or_error r"
    unfolding miss by (simp add: row_or_error_def no_single_row_def refused_def)
  have off_ok: "\<forall>r. select_single (supabase offline) (by_id_query ''c-7'') = Resolves r
                  \<longrightarrow> row_or_error r"
    by (simp add: store_defs row_or_error_def)
  have up: "isSupabaseConnected ?nike" and off: "\<not> isSupabaseConnected offline"
    by (simp_all add: store_defs)
  have refused: "error no_single_row \<noteq> None" "error ?found = None"
    by (simp_all add: no_single_row_def refused_def)
  from by_id_never_null [OF hit_ok, of fresh] up hit refused
  have one: "fst (fetchTargetingIntelByCompetitorId ?nike ''c-7'' fresh) = nike_running"
    by simp
  from by_id_never_null [OF miss_ok, of fresh] up miss refused
  have two: "fst (fetchTargetingIntelByCompetitorId ?nike ''c-404'' fresh)
               = mockTargetingIntelData ?nike"
    and three: "fst (fetchTargetingIntelByCompetitorId ?nike ''c-404'' fresh) \<noteq> JNull"
    by blast+
  from by_id_never_null [OF off_ok, of fresh] off
  have four: "fst (fetchTargetingIntelByCompetitorId offline ''c-7'' fresh)
                = mockTargetingIntelData offline"
    by blast
  from one two three four miss show ?thesis by (simp add: nike_running_def)
qed

section \<open>Daily metrics: limit and order\<close>

lemma map_rows_Some:
  "map_rows rows = Some cs \<Longrightarrow>
     cs = map (\<lambda>row. the (row_to_card row)) rows \<and> (\<forall>row \<in> set rows. \<not> nullish row)"
  by (induction rows arbitrary: cs) (auto simp: row_to_card_def split: option.splits if_splits)

lemma map_rows_total:
  "\<forall>row \<in> set rows. \<not> nullish row \<Longrightarrow>
     map_rows rows = Some (map (\<lambda>row. the (row_to_card row)) rows)"
  by (induction rows) (auto simp: row_to_card_def)

lemma fetchDaily_cases:
  "fst (fetchDailyMetrics e d st) = [] \<or>
   (isSupabaseConnected e \<and>
    (\<exists>r rows. select_rows (supabase e) (daily_query (fst (targetDate_of e d st))) = Resolves r
       \<and> error r = None \<and> data r = Some rows
       \<and> map_rows rows = Some (fst (fetchDailyMetrics e d st))))"
  by (auto simp: fetchDailyMetrics_def mockDailyMetrics_def Let_def
           split: prod.splits outcome.splits option.splits)

lemma fetchDaily_rows:
  assumes "isSupabaseConnected e"
    and "select_rows (supabase e) (daily_query (fst (targetDate_of e d st))) = Resolves r"
    and "error r = None" and "data r = Some rows"
    and "\<forall>row \<in> set rows. \<not> nullish row"
  shows "fst (fetchDailyMetrics e d st) = map (\<lambda>row. the (row_to_card row)) rows"
  using assms map_rows_total [OF assms(5)]
  by (auto simp: fetchDailyMetrics_def Let_def split: prod.splits)

text \<open>
  C4 fails in its second half. \<^verbatim>\<open>fetchDailyMetrics\<close> asks the store for the rows of the
  date in descending order of \<^verbatim>\<open>daily_spend\<close>, at most 10 of them, and maps the rows in
  the order received; it does not sort what it returns. The map turns a
  \<^verbatim>\<open>daily_spend\<close> that is \<^verbatim>\<open>null\<close> into 0 after the store has ordered the rows. In the
  store's descending order a row without spend comes first (the request does not ask
  for missing values last), so on a day with one such row and one row that spent 500
  the list returned has the spends 0, 500: two elements, within the limit, and not in
  descending order.
\<close>

theorem daily_missing_spend_unsorted:
  "select_rows (supabase (env_of True missing_spend_store morning_clock))
     \<lparr>from_table = ''daily_metrics'',
      select_columns =
        ''id,date,daily_spend,daily_impressions,daily_ctr,competitor:competitor_id(id,name)'',
      filters = [Eq ''date'' ''2024-01-15''],
      order_by = Some (''daily_spend'', False), limit_rows = Some 10\<rparr>
     = Resolves
         \<lparr>data = Some [daily_row ''d-3'' JNull JNull, daily_row ''d-2'' (JNum 500) JNull],
          error = None, count = None\<rparr>
   \<and> map (\<lambda>row. member row ''daily_spend'')
         [daily_row ''d-3'' JNull JNull, daily_row ''d-2'' (JNum 500) JNull]
     = [JNull, JNum 500]
   \<and> calls (snd (fetchDailyMetrics (env_of True missing_spend_store morning_clock)
                   (Some ''2024-01-15'') fresh))
     = [SelectRows
          \<lparr>from_table = ''daily_metrics'',
           select_columns =
             ''id,date,daily_spend,daily_impressions,daily_ctr,competitor:competitor_id(id,name)'',
           filters = [Eq ''date'' ''2024-01-15''],
           order_by = Some (''daily_spend'', False), limit_rows = Some 10\<rparr>]
   \<and> map daily_spend
         (fst (fetchDailyMetrics (env_of True missing_spend_store morning_clock)
                 (Some ''2024-01-15'') fresh))
     = [JNum 0, JNum 500]
   \<and> length (fst (fetchDailyMetrics (env_of True missing_spend_store morning_clock)
                    (Some ''2024-01-15'') fresh)) \<le> 10
   \<and> \<not> spend_descending
         (fst (fetchDailyMetrics (env_of True missing_spend_store morning_clock)
                 (Some ''2024-01-15'') fresh))"
  by (simp add: fetchDailyMetrics_def targetDate_of_def store_defs query_defs daily_row_def
        row_to_card_def coalesce_def opt_member_def issue_def spend_descending_def)

section \<open>Constant fields of a daily card\<close>

text \<open>
  C9. Every element of the list \<^verbatim>\<open>fetchDailyMetrics\<close> returns has \<^verbatim>\<open>platform\<close> equal to
  \<^verbatim>\<open>'Mixed'\<close> and \<^verbatim>\<open>status\<close> equal to \<^verbatim>\<open>'ACTIVE'\<close>, whatever the rows of the store
  hold (the example maps rows whose own \<^verbatim>\<open>platform\<close> and \<^verbatim>\<open>status\<close> are \<^verbatim>\<open>'Meta'\<close>
  and \<^verbatim>\<open>'PAUSED'\<close>).
\<close>

theorem daily_platform_and_status:
  "\<forall>c \<in> set (fst (fetchDailyMetrics e d st)).
      platform c = JStr ''Mixed'' \<and> status c = JStr ''ACTIVE''"
proof -
  consider (empty) "fst (fetchDailyMetrics e d st) = []"
    | (rows) rows where "map_rows rows = Some (fst (fetchDailyMetrics e d st))"
    using fetchDaily_cases [of e d st] by blast
  then show ?thesis
  proof cases
    case empty
    then show ?thesis by simp
  next
    case rows
    from map_rows_Some [OF rows]
    have eq: "fst (fetchDailyMetrics e d st) = map (\<lambda>row. the (row_to_card row)) rows"
      and ok: "\<forall>row \<in> set rows. \<not> nullish row" by blast+
    show ?thesis unfolding eq using ok by (auto simp: row_to_card_def)
  qed
qed

theorem daily_platform_and_status_witness:
  "map (\<lambda>row. (member row ''platform'', member row ''status''))
     [daily_row ''d-1'' (JNum 900) (JObj [(''id'', JStr ''c-7''), (''name'', JStr ''Nike'')]),
      daily_row ''d-2'' (JNum 500) JNull]
     = [(JStr ''Meta'', JStr ''PAUSED''), (JStr ''Meta'', JStr ''PAUSED'')]
   \<and> map (\<lambda>c. (ad_id c, platform c, status c))
       (fst (fetchDailyMetrics (env_of True daily_store morning_clock) (Some ''2024-01-15'') fresh))
     = [(JStr ''d-1'', JStr ''Mixed'', JStr ''ACTIVE''), (JStr ''d-2'', JStr ''Mixed'', JStr ''ACTIVE'')]"
proof -
  let ?env = "env_of True daily_store morning_clock"
  have ids: "map ad_id (fst (fetchDailyMetrics ?env (Some ''2024-01-15'') fresh))
               = [JStr ''d-1'', JStr ''d-2'']"
    by (simp add: fetchDailyMetrics_def targetDate_of_def store_defs query_defs daily_row_def
          row_to_card_def issue_def)
  then obtain c1 c2 where
    two: "fst (fetchDailyMetrics ?env (Some ''2024-01-15'') fresh) = [c1, c2]"
    and "ad_id c1 = JStr ''d-1''" "ad_id c2 = JStr ''d-2''"
    by (auto simp: map_eq_Cons_conv)
  with daily_platform_and_status [of ?env "Some ''2024-01-15''" fresh]
  show ?thesis by (simp add: daily_row_def)
qed

section \<open>Mapping of rows to entities\<close>

text \<open>
  C5, as stated, fails. Only \<^verbatim>\<open>fetchDailyMetrics\<close> maps the rows it receives.
  \<^verbatim>\<open>fetchSummaryMetrics\<close> returns \<^verbatim>\<open>data[0]\<close> as it came: a row of \<^verbatim>\<open>summary_metrics\<close>
  whose spend and impressions are \<^verbatim>\<open>null\<close> reaches the caller with these two numeric
  fields \<^verbatim>\<open>null\<close>, not 0.
\<close>

theorem summary_row_unmapped_counterexample:
  "fst (fetchSummaryMetrics (env_of True sparse_store morning_clock) fresh) = sparse_summary
   \<and> member (fst (fetchSummaryMetrics (env_of True sparse_store morning_clock) fresh))
        ''total_competitor_spend'' = JNull
   \<and> member (fst (fetchSummaryMetrics (env_of True sparse_store morning_clock) fresh))
        ''total_impressions'' = JNull
   \<and> \<not> populated SummaryMetrics_fields
         (fst (fetchSummaryMetrics (env_of True sparse_store morning_clock) fresh))"
  by (simp add: fetchSummaryMetrics_def store_defs sparse_summary_def populated_def
        SummaryMetrics_fields_def)

lemma row_to_card_defaults: "\<not> nullish row \<Longrightarrow> card_defaults row (the (row_to_card row))"
  by (auto simp: card_defaults_def row_to_card_def coalesce_def opt_member_def)

lemma card_defaults_populated:
  "card_defaults row c \<Longrightarrow>
     \<not> nullish (competitor_name c) \<and> \<not> nullish (platform c) \<and> \<not> nullish (status c)
     \<and> \<not> nullish (daily_spend c) \<and> \<not> nullish (daily_impressions c) \<and> \<not> nullish (daily_ctr c)"
  by (auto simp: card_defaults_def split: if_splits)

text \<open>
  C5, amended. \<^verbatim>\<open>fetchDailyMetrics\<close> maps each row it receives to a card, in order:
  \<^verbatim>\<open>id\<close> and \<^verbatim>\<open>date\<close> are copied as they are, \<^verbatim>\<open>competitor_name\<close> is the name of the
  joined competitor, or \<^verbatim>\<open>'Unknown'\<close> when the competitor or its name is \<^verbatim>\<open>null\<close> or
  \<^verbatim>\<open>undefined\<close>, \<^verbatim>\<open>daily_spend\<close>, \<^verbatim>\<open>daily_impressions\<close> and \<^verbatim>\<open>daily_ctr\<close> are the row's
  values, or 0 when these are \<^verbatim>\<open>null\<close> or \<^verbatim>\<open>undefined\<close>, and \<^verbatim>\<open>platform\<close> and \<^verbatim>\<open>status\<close>
  are constants; so these six fields of a returned card are never \<^verbatim>\<open>null\<close> or
  \<^verbatim>\<open>undefined\<close>. \<^verbatim>\<open>fetchSummaryMetrics\<close> and the four readers of \<^verbatim>\<open>targeting_intel\<close>
  apply no mapping: they return the rows as received.
\<close>

theorem rows_mapped_for_daily_only:
  "(isSupabaseConnected e
      \<and> select_rows (supabase e) (daily_query (fst (targetDate_of e d st))) = Resolves r
      \<and> error r = None \<and> data r = Some rows \<and> (\<forall>row \<in> set rows. \<not> nullish row)
      \<longrightarrow> list_all2 card_defaults rows (fst (fetchDailyMetrics e d st)))
   \<and> (\<forall>c \<in> set (fst (fetchDailyMetrics e d st)).
         \<not> nullish (competitor_name c) \<and> \<not> nullish (platform c) \<and> \<not> nullish (status c)
         \<and> \<not> nullish (daily_spend c) \<and> \<not> nullish (daily_impressions c)
         \<and> \<not> nullish (daily_ctr c))
   \<and> (isSupabaseConnected e
      \<and> select_rows (supabase e) summary_query = Resolves rs
      \<and> error rs = None \<and> data rs = Some (row # rest)
      \<longrightarrow> fst (fetchSummaryMetrics e st) = row)
   \<and> (isSupabaseConnected e
      \<and> select_rows (supabase e) all_targeting_query = Resolves ra
      \<and> error ra = None \<and> data ra = Some (row # rest)
      \<longrightarrow> fst (fetchAllTargetingIntel e st) = row # rest)
   \<and> (isSupabaseConnected e
      \<and> select_single (supabase e) (by_id_query competitorId) = Resolves ri
      \<and> error ri = None \<and> \<not> falsy (data ri)
      \<longrightarrow> fst (fetchTargetingIntelByCompetitorId e competitorId st) = data ri)
   \<and> (isSupabaseConnected e
      \<and> select_single (supabase e) (by_name_query competitorName) = Resolves rn
      \<and> error rn = None \<and> \<not> falsy (data rn)
      \<longrightarrow> fst (fetchTargetingIntelByCompetitorName e competitorName st) = data rn)
   \<and> (isSupabaseConnected e
      \<and> select_single (supabase e) latest_query = Resolves rl
      \<and> error rl = None \<and> \<not> falsy (data rl)
      \<longrightarrow> fst (fetchLatestTargetingIntel e st) = data rl)"
proof (intro conjI)
  show "isSupabaseConnected e
      \<and> select_rows (supabase e) (daily_query (fst (targetDate_of e d st))) = Resolves r
      \<and> error r = None \<and> data r = Some rows \<and> (\<forall>row \<in> set rows. \<not> nullish row)
      \<longrightarrow> list_all2 card_defaults rows (fst (fetchDailyMetrics e d st))"
  proof
    assume a: "isSupabaseConnected e
      \<and> select_rows (supabase e) (daily_query (fst (targetDate_of e d st))) = Resolves r
      \<and> error r = None \<and> data r = Some rows \<and> (\<forall>row \<in> set rows. \<not> nullish row)"
    then have "fst (fetchDailyMetrics e d st) = map (\<lambda>row. the (row_to_card row)) rows"
      using fetchDaily_rows [of e d st r rows] by blast
    with a show "list_all2 card_defaults rows (fst (fetchDailyMetrics e d st))"
      by (simp add: list_all2_conv_all_nth row_to_card_defaults)
  qed
next
  consider (empty) "fst (fetchDailyMetrics e d st) = []"
    | (rows) rows where "map_rows rows = Some (fst (fetchDailyMetrics e d st))"
    using fetchDaily_cases [of e d st] by blast
  then show "\<forall>c \<in> set (fst (fetchDailyMetrics e d st)).
         \<not> nullish (competitor_name c) \<and> \<not> nullish (platform c) \<and> \<not> nullish (status c)
         \<and> \<not> nullish (daily_spend c) \<and> \<not> nullish (daily_impressions c)
         \<and> \<not> nullish (daily_ctr c)"
  proof cases
    case empty
    then show ?thesis by simp
  next
    case rows
    from map_rows_Some [OF rows]
    have eq: "fst (fetchDailyMetrics e d st) = map (\<lambda>row. the (row_to_card row)) rows"
      and ok: "\<forall>row \<in> set rows. \<not> nullish row" by blast+
    show ?thesis unfolding eq
    proof
      fix c assume "c \<in> set (map (\<lambda>row. the (row_to_card row)) rows)"
      then obtain row where "row \<in> set rows" "c = the (row_to_card row)" by auto
      with ok have "card_defaults row c" by (simp add: row_to_card_defaults)
      then show "\<not> nullish (competitor_name c) \<and> \<not> nullish (platform c) \<and> \<not> nullish (status c)
         \<and> \<not> nullish (daily_spend c) \<and> \<not> nullish (daily_impressions c)
         \<and> \<not> nullish (daily_ctr c)" by (rule card_defaults_populated)
    qed
  qed
next
  show "isSupabaseConnected e
      \<and> select_rows (supabase e) summary_query = Resolves rs
      \<and> error rs = None \<and> data rs = Some (row # rest)
      \<longrightarrow> fst (fetchSummaryMetrics e st) = row"
    by (simp add: fetchSummaryMetrics_def)
next
  show "isSupabaseConnected e
      \<and> select_rows (supabase e) all_targeting_query = Resolves ra
      \<and> error ra = None \<and> data ra = Some (row # rest)
      \<longrightarrow> fst (fetchAllTargetingIntel e st) = row # rest"
    by (simp add: fetchAllTargetingIntel_def)
next
  show "isSupabaseConnected e
      \<and> select_single (supabase e) (by_id_query competitorId) = Resolves ri
      \<and> error ri = None \<and> \<not> falsy (data ri)
      \<longrightarrow> fst (fetchTargetingIntelByCompetitorId e competitorId st) = data ri"
    by (simp add: fetchTargetingIntelByCompetitorId_def single_result_def)
next
  show "isSupabaseConnected e
      \<and> select_single (supabase e) (by_name_query competitorName) = Resolves rn
      \<and> error rn = None \<and> \<not> falsy (data rn)
      \<longrightarrow> fst (fetchTargetingIntelByCompetitorName e competitorName st) = data rn"
    by (simp add: fetchTargetingIntelByCompetitorName_def single_result_def)
next
  show "isSupabaseConnected e
      \<and> select_single (supabase e) latest_query = Resolves rl
      \<and> error rl = None \<and> \<not> falsy (data rl)
      \<longrightarrow> fst (fetchLatestTargetingIntel e st) = data rl"
    by (simp add: fetchLatestTargetingIntel_def single_result_def)
qed

theorem rows_mapped_for_daily_only_witness:
  "fst (fetchDailyMetrics (env_of True missing_spend_store morning_clock) (Some ''2024-01-15'') fresh)
     = [\<lparr>ad_id = JStr ''d-3'', date = JStr ''2024-01-15'', competitor_name = JStr ''Unknown'',
         platform = JStr ''Mixed'', status = JStr ''ACTIVE'', daily_spend = JNum 0,
         daily_impressions = JNum 12000, daily_ctr = JNum 0\<rparr>,
        \<lparr>ad_id = JStr ''d-2'', date = JStr ''2024-01-15'', competitor_name = JStr ''Unknown'',
         platform = JStr ''Mixed'', status = JStr ''ACTIVE'', daily_spend = JNum 500,
         daily_impressions = JNum 12000, daily_ctr = JNum 0\<rparr>]
   \<and> fst (fetchSummaryMetrics (env_of True sparse_store morning_clock) fresh) = sparse_summary
   \<and> fst (fetchAllTargetingIntel (env_of True nike_store morning_clock) fresh) = [nike_running]
   \<and> fst (fetchTargetingIntelByCompetitorId (env_of True nike_store morning_clock) ''c-7'' fresh)
       = nike_running
   \<and> fst (fetchTargetingIntelByCompetitorName (env_of True nike_store morning_clock) ''Nike'' fresh)
       = nike_running
   \<and> fst (fetchLatestTargetingIntel (env_of True nike_store morning_clock) fresh) = nike_running"
proof -
  let ?daily = "env_of True missing_spend_store morning_clock"
  let ?rows = "[daily_row ''d-3'' JNull JNull, daily_row ''d-2'' (JNum 500) JNull]"
  let ?rd = "\<lparr>data = Some ?rows, error = None, count = None\<rparr>"
  let ?sparse = "env_of True sparse_store morning_clock"
  let ?rs = "\<lparr>data = Some [sparse_summary], error = None, count = None\<rparr>"
  let ?nike = "env_of True nike_store morning_clock"
  let ?ra = "\<lparr>data = Some [nike_running], error = None, count = None\<rparr>"
  let ?r1 = "\<lparr>data = nike_running, error = None, count = None\<rparr>"
  have daily: "isSupabaseConnected ?daily
      \<and> select_rows (supabase ?daily)
            (daily_query (fst (targetDate_of ?daily (Some ''2024-01-15'') fresh))) = Resolves ?rd
      \<and> error ?rd = None \<and> data ?rd = Some ?rows \<and> (\<forall>row \<in> set ?rows. \<not> nullish row)"
    by (simp add: targetDate_of_def store_defs daily_row_def)
  have summary: "isSupabaseConnected ?sparse
      \<and> select_rows (supabase ?sparse) summary_query = Resolves ?rs
      \<and> error ?rs = None \<and> data ?rs = Some (sparse_summary # [])"
    by (simp add: store_defs)
  have nike: "isSupabaseConnected ?nike"
    "select_rows (supabase ?nike) all_targeting_query = Resolves ?ra
      \<and> error ?ra = None \<and> data ?ra = Some (nike_running # [])"
    "select_single (supabase ?nike) (by_id_query ''c-7'') = Resolves ?r1"
    "select_single (supabase ?nike) (by_name_query ''Nike'') = Resolves ?r1"
    "select_single (supabase ?nike) latest_query = Resolves ?r1"
    "error ?r1 = None \<and> \<not> falsy (data ?r1)"
    by (simp_all add: store_defs nike_running_def)
  have first: "list_all2 card_defaults ?rows
                 (fst (fetchDailyMetrics ?daily (Some ''2024-01-15'') fresh))"
    using daily
      rows_mapped_for_daily_only [of ?daily "Some ''2024-01-15''" fresh ?rd ?rows]
    by blast
  have rest: "fst (fetchSummaryMetrics ?sparse fresh) = sparse_summary
     \<and> fst (fetchAllTargetingIntel ?nike fresh) = [nike_running]
     \<and> fst (fetchTargetingIntelByCompetitorId ?nike ''c-7'' fresh) = nike_running
     \<and> fst (fetchTargetingIntelByCompetitorName ?nike ''Nike'' fresh) = nike_running
     \<and> fst (fetchLatestTargetingIntel ?nike fresh) = nike_running"
    using summary nike
      rows_mapped_for_daily_only [of ?sparse _ fresh _ _ ?rs sparse_summary "[]"]
      rows_mapped_for_daily_only [of ?nike _ fresh _ _ _ nike_running "[]" ?ra "''c-7''" ?r1 "''Nike''" ?r1 ?r1]
    by simp
  from first obtain c1 c2 where
    two: "fst (fetchDailyMetrics ?daily (Some ''2024-01-15'') fresh) = [c1, c2]"
    and c1: "card_defaults (daily_row ''d-3'' JNull JNull) c1"
    and c2: "card_defaults (daily_row ''d-2'' (JNum 500) JNull) c2"
    by (auto simp: list_all2_Cons1)
  from c1 c2 have "c1 = \<lparr>ad_id = JStr ''d-3'', date = JStr ''2024-01-15'', competitor_name = JStr ''Unknown'',
         platform = JStr ''Mixed'', status = JStr ''ACTIVE'', daily_spend = JNum 0,
         daily_impressions = JNum 12000, daily_ctr = JNum 0\<rparr>"
    and "c2 = \<lparr>ad_id = JStr ''d-2'', date = JStr ''2024-01-15'', competitor_name = JStr ''Unknown'',
         platform = JStr ''Mixed'', status = JStr ''ACTIVE'', daily_spend = JNum 500,
         daily_impressions = JNum 12000, daily_ctr = JNum 0\<rparr>"
    by (simp_all add: card_defaults_def daily_row_def)
  with two rest show ?thesis by simp
qed


section \<open>Creating a targeting record\<close>

lemma create_connected:
  "isSupabaseConnected e \<Longrightarrow>
   createTargetingIntel e input st =
     (case insert_single (supabase e) ''targeting_intel'' [sent_row e input st] of
        Throws err \<Rightarrow> JNull
      | Resolves r \<Rightarrow> if error r \<noteq> None \<or> nullish (data r) then JNull else data r,
      issue (InsertSingle ''targeting_intel'' [sent_row e input st])
        (st\<lparr>ticks := Suc (Suc (ticks st))\<rparr>))"
  by (simp add: createTargetingIntel_def new_Date_def issue_def sent_row_def Let_def
           split: outcome.splits)

text \<open>
  C6. \<^verbatim>\<open>createTargetingIntel\<close> returns \<^verbatim>\<open>null\<close> and the world it was given (no request
  sent) when the gateway is unavailable. When it is available, exactly one request is
  sent, the insert of the stamped row, whatever its outcome: nothing is retried or
  undone by this layer. When the insert reports an error the result is \<^verbatim>\<open>null\<close>. When
  it reports a row and no error, that row is the result. The row sent carries as
  \<^verbatim>\<open>created_at\<close> and \<^verbatim>\<open>updated_at\<close> the \<^verbatim>\<open>toISOString()\<close> of the client's clock, read
  twice, which have the ISO-8601 shape \<^verbatim>\<open>YYYY-MM-DDTHH:mm:ss.sssZ\<close> for years up to
  9999; and when the row reported back carries what was sent, these are the
  \<^verbatim>\<open>created_at\<close> and \<^verbatim>\<open>updated_at\<close> of the entity returned.
\<close>

theorem create_targeting_intel:
  "(\<not> isSupabaseConnected e \<longrightarrow> createTargetingIntel e input st = (JNull, st))
   \<and> (isSupabaseConnected e \<longrightarrow>
        calls (snd (createTargetingIntel e input st))
          = calls st @ [InsertSingle ''targeting_intel'' [sent_row e input st]])
   \<and> (isSupabaseConnected e
        \<and> insert_single (supabase e) ''targeting_intel'' [sent_row e input st] = Resolves r
        \<and> error r \<noteq> None
      \<longrightarrow> fst (createTargetingIntel e input st) = JNull)
   \<and> (isSupabaseConnected e
        \<and> insert_single (supabase e) ''targeting_intel'' [sent_row e input st] = Resolves r
        \<and> error r = None \<and> \<not> nullish (data r)
      \<longrightarrow> fst (createTargetingIntel e input st) = data r)
   \<and> member (sent_row e input st) ''created_at'' = JStr (toISOString (clock e (ticks st)))
   \<and> member (sent_row e input st) ''updated_at'' = JStr (toISOString (clock e (Suc (ticks st))))
   \<and> (utc_year (clock e (ticks st)) \<le> 9999 \<and> utc_year (clock e (Suc (ticks st))) \<le> 9999
      \<longrightarrow> iso8601_utc (toISOString (clock e (ticks st)))
        \<and> iso8601_utc (toISOString (clock e (Suc (ticks st)))))
   \<and> (isSupabaseConnected e
        \<and> insert_single (supabase e) ''targeting_intel'' [sent_row e input st] = Resolves r
        \<and> error r = None \<and> \<not> nullish (data r) \<and> echoes (sent_row e input st) (data r)
      \<longrightarrow> member (fst (createTargetingIntel e input st)) ''created_at''
            = JStr (toISOString (clock e (ticks st)))
        \<and> member (fst (createTargetingIntel e input st)) ''updated_at''
            = JStr (toISOString (clock e (Suc (ticks st)))))"
proof (intro conjI)
  show "\<not> isSupabaseConnected e \<longrightarrow> createTargetingIntel e input st = (JNull, st)"
    by (simp add: createTargetingIntel_def)
  show "isSupabaseConnected e \<longrightarrow>
        calls (snd (createTargetingIntel e input st))
          = calls st @ [InsertSingle ''targeting_intel'' [sent_row e input st]]"
    by (simp add: create_connected issue_def)
  show "isSupabaseConnected e
        \<and> insert_single (supabase e) ''targeting_intel'' [sent_row e input st] = Resolves r
        \<and> error r \<noteq> None
      \<longrightarrow> fst (createTargetingIntel e input st) = JNull"
    by (auto simp: create_connected)
  show "isSupabaseConnected e
        \<and> insert_single (supabase e) ''targeting_intel'' [sent_row e input st] = Resolves r
        \<and> error r = None \<and> \<not> nullish (data r)
      \<longrightarrow> fst (createTargetingIntel e input st) = data r"
    by (auto simp: create_connected)
  show "member (sent_row e input st) ''created_at'' = JStr (toISOString (clock e (ticks st)))"
    unfolding sent_row_def by (rule stamped_created)
  show "member (sent_row e input st) ''updated_at'' = JStr (toISOString (clock e (Suc (ticks st))))"
    unfolding sent_row_def by (rule stamped_updated)
  show "utc_year (clock e (ticks st)) \<le> 9999 \<and> utc_year (clock e (Suc (ticks st))) \<le> 9999
      \<longrightarrow> iso8601_utc (toISOString (clock e (ticks st)))
        \<and> iso8601_utc (toISOString (clock e (Suc (ticks st))))"
    by (simp add: toISOString_shape)
  show "isSupabaseConnected e
        \<and> insert_single (supabase e) ''targeting_intel'' [sent_row e input st] = Resolves r
        \<and> error r = None \<and> \<not> nullish (data r) \<and> echoes (sent_row e input st) (data r)
      \<longrightarrow> member (fst (createTargetingIntel e input st)) ''created_at''
            = JStr (toISOString (clock e (ticks st)))
        \<and> member (fst (createTargetingIntel e input st)) ''updated_at''
            = JStr (toISOString (clock e (Suc (ticks st))))"
    by (auto simp: create_connected sent_row_def
             dest: echoes_stamped_created echoes_stamped_updated)
qed

theorem create_targeting_intel_witness:
  "createTargetingIntel offline new_intel fresh = (JNull, fresh)
   \<and> fst (createTargetingIntel (env_of True readonly_store morning_clock) new_intel fresh) = JNull
   \<and> calls (snd (createTargetingIntel (env_of True readonly_store morning_clock) new_intel fresh))
       = [InsertSingle ''targeting_intel''
            [sent_row (env_of True readonly_store morning_clock) new_intel fresh]]
   \<and> fst (createTargetingIntel (env_of True empty_store morning_clock) new_intel fresh)
       = JObj [(''competitor_id'', JStr ''c-9''),
               (''competitor_name'', JStr ''Puma''),
               (''confidence_score'', JNum 0.5),
               (''created_at'', JStr ''2024-01-15T09:30:05.042Z''),
               (''updated_at'', JStr ''2024-01-15T09:30:05.043Z''),
               (''id'', JStr ''new-1'')]
   \<and> member (fst (createTargetingIntel (env_of True empty_store morning_clock) new_intel fresh))
        ''created_at'' = JStr ''2024-01-15T09:30:05.042Z''
   \<and> iso8601_utc ''2024-01-15T09:30:05.042Z''
   \<and> iso8601_utc ''2024-01-15T09:30:05.043Z''"
proof -
  let ?ro = "env_of True readonly_store morning_clock"
  let ?rw = "env_of True empty_store morning_clock"
  let ?refusal = "refused ''new row violates row-level security policy'' JNull"
  let ?stored = "JObj [(''competitor_id'', JStr ''c-9''),
               (''competitor_name'', JStr ''Puma''),
               (''confidence_score'', JNum 0.5),
               (''created_at'', JStr ''2024-01-15T09:30:05.042Z''),
               (''updated_at'', JStr ''2024-01-15T09:30:05.043Z''),
               (''id'', JStr ''new-1'')]"
  let ?ok = "\<lparr>data = ?stored, error = None, count = None\<rparr>"
  have off: "\<not> isSupabaseConnected offline" by (simp add: store_defs)
  have t1: "toISOString (clock ?rw (ticks fresh)) = ''2024-01-15T09:30:05.042Z''"
    and t2: "toISOString (clock ?rw (Suc (ticks fresh))) = ''2024-01-15T09:30:05.043Z''"
    and years: "utc_year (clock ?rw (ticks fresh)) \<le> 9999
                \<and> utc_year (clock ?rw (Suc (ticks fresh))) \<le> 9999"
    by (simp_all add: store_defs time_defs)
  have ro: "isSupabaseConnected ?ro
        \<and> insert_single (supabase ?ro) ''targeting_intel'' [sent_row ?ro new_intel fresh]
            = Resolves ?refusal
        \<and> error ?refusal \<noteq> None"
    by (simp add: store_defs)
  have sent: "sent_row ?rw new_intel fresh
      = JObj [(''competitor_id'', JStr ''c-9''),
               (''competitor_name'', JStr ''Puma''),
               (''confidence_score'', JNum 0.5),
               (''created_at'', JStr ''2024-01-15T09:30:05.042Z''),
               (''updated_at'', JStr ''2024-01-15T09:30:05.043Z'')]"
    unfolding sent_row_def stamped_def t1 t2 by (simp add: new_intel_def)
  have rw: "isSupabaseConnected ?rw
        \<and> insert_single (supabase ?rw) ''targeting_intel'' [sent_row ?rw new_intel fresh]
            = Resolves ?ok
        \<and> error ?ok = None \<and> \<not> nullish (data ?ok)
        \<and> echoes (sent_row ?rw new_intel fresh) (data ?ok)"
    unfolding sent by (simp add: store_defs echoes_def)
  show ?thesis
    using off ro rw years
      create_targeting_intel [of offline new_intel fresh]
      create_targeting_intel [of ?ro new_intel fresh ?refusal]
      create_targeting_intel [of ?rw new_intel fresh ?ok]
    unfolding t1 t2
    by (simp add: fresh_def)
qed


section \<open>The health probes\<close>

text \<open>
  C7 holds for \<^verbatim>\<open>testTargetingIntelConnection\<close>, which checks \<^verbatim>\<open>countError\<close>, and fails
  for \<^verbatim>\<open>testDatabaseConnection\<close>, which reads only \<^verbatim>\<open>count\<close> from the two responses:
  a count query that reports its failure in \<^verbatim>\<open>error\<close> (as the client does, rather
  than throwing) leaves the probe at \<^verbatim>\<open>connected: true\<close> with 0 for the failed count,
  the count of the other table reported and no error message. On the same store the
  sibling probe reports \<^verbatim>\<open>connected: false\<close> with the message.
\<close>

theorem db_probe_ignores_reported_error:
  "select_count (supabase (env_of True count_refused_store morning_clock)) ''summary_metrics''
     = Resolves (refused ''permission denied for table summary_metrics'' None)
   \<and> fst (testDatabaseConnection (env_of True count_refused_store morning_clock) fresh)
     = \<lparr>connected = True, error_message = None, summaryCount = 0, dailyCount = 7\<rparr>
   \<and> select_count (supabase (env_of True count_refused_store morning_clock)) ''targeting_intel''
     = Resolves (refused ''permission denied for table targeting_intel'' None)
   \<and> fst (testTargetingIntelConnection (env_of True count_refused_store morning_clock) fresh)
     = \<lparr>connected = False, error_message = Some ''permission denied for table targeting_intel'',
        recordCount = 0, latestRecord = None\<rparr>"
  by (simp add: testDatabaseConnection_def testTargetingIntelConnection_def store_defs
        or_zero_def ti_failed_def)

lemma ti_probe_connected:
  "isSupabaseConnected e \<Longrightarrow>
   fst (testTargetingIntelConnection e st) =
     (case select_count (supabase e) ''targeting_intel'' of
        Throws msg \<Rightarrow> ti_failed msg
      | Resolves rc \<Rightarrow>
          (case error rc of
             Some countError \<Rightarrow> ti_failed (message countError)
           | None \<Rightarrow>
               (case select_single (supabase e) latest_label_query of
                  Throws msg \<Rightarrow> ti_failed msg
                | Resolves rl \<Rightarrow>
                    \<lparr>connected = True, error_message = None,
                     recordCount = or_zero (count rc),
                     latestRecord = (if falsy (data rl) then None
                                     else Some (latest_label e (data rl)))\<rparr>)))"
  by (simp add: testTargetingIntelConnection_def Let_def split: outcome.splits option.splits)

text \<open>
  C10. With the gateway available, when the count query of
  \<^verbatim>\<open>testTargetingIntelConnection\<close> succeeds and the query for the latest record reports
  an error (and so no row), the probe still reports \<^verbatim>\<open>connected: true\<close> with the
  count and without \<^verbatim>\<open>latestRecord\<close> and without an error message. The probe reports
  \<^verbatim>\<open>connected: false\<close> exactly when the count query throws or reports an error, or
  the latest-record query throws.
\<close>

theorem latest_failure_keeps_probe_connected:
  assumes "isSupabaseConnected e"
  shows "(select_count (supabase e) ''targeting_intel'' = Resolves rc \<and> error rc = None
          \<and> select_single (supabase e) latest_label_query = Resolves rl
          \<and> error rl \<noteq> None \<and> falsy (data rl)
        \<longrightarrow> fst (testTargetingIntelConnection e st)
              = \<lparr>connected = True, error_message = None,
                 recordCount = or_zero (count rc), latestRecord = None\<rparr>)
       \<and> (\<not> connected (fst (testTargetingIntelConnection e st))
           \<longleftrightarrow> (\<exists>msg. select_count (supabase e) ''targeting_intel'' = Throws msg)
             \<or> (\<exists>r. select_count (supabase e) ''targeting_intel'' = Resolves r
                    \<and> error r \<noteq> None)
             \<or> (\<exists>r msg. select_count (supabase e) ''targeting_intel'' = Resolves r
                    \<and> error r = None
                    \<and> select_single (supabase e) latest_label_query = Throws msg))"
  by (auto simp: ti_probe_connected [OF assms] ti_failed_def
           split: outcome.splits option.splits)

theorem latest_failure_keeps_probe_connected_witness:
  "select_single (supabase (env_of True latest_refused_store morning_clock)) latest_label_query
     = Resolves (refused ''canceling statement due to statement timeout'' JNull)
   \<and> fst (testTargetingIntelConnection (env_of True latest_refused_store morning_clock) fresh)
     = \<lparr>connected = True, error_message = None, recordCount = 3, latestRecord = None\<rparr>"
proof -
  let ?env = "env_of True latest_refused_store morning_clock"
  let ?rl = "refused ''canceling statement due to statement timeout'' JNull"
  have up: "isSupabaseConnected ?env" by (simp add: store_defs)
  have answers: "select_count (supabase ?env) ''targeting_intel'' = Resolves (counted 3)
          \<and> error (counted 3) = None
          \<and> select_single (supabase ?env) latest_label_query = Resolves ?rl
          \<and> error ?rl \<noteq> None \<and> falsy (data ?rl)"
    by (simp add: store_defs)
  show ?thesis
    using answers latest_failure_keeps_probe_connected [OF up, of "counted 3" ?rl fresh]
    by (simp add: counted_def or_zero_def)
qed


section \<open>Repeated reads\<close>

lemma daily_by_target:
  "fst (fetchDailyMetrics e d st) =
     (if \<not> isSupabaseConnected e then mockDailyMetrics
      else case select_rows (supabase e) (daily_query (fst (targetDate_of e d st))) of
             Throws err \<Rightarrow> mockDailyMetrics
           | Resolves r \<Rightarrow>
               (if error r \<noteq> None then mockDailyMetrics
                else case data r of
                       None \<Rightarrow> mockDailyMetrics
                     | Some rows \<Rightarrow>
                         (case map_rows rows of None \<Rightarrow> mockDailyMetrics | Some cards \<Rightarrow> cards)))"
  by (simp add: fetchDailyMetrics_def Let_def split: prod.splits outcome.splits option.splits)

lemma target_of_given: "d \<noteq> [] \<Longrightarrow> fst (targetDate_of e (Some d) st) = d"
  by (simp add: targetDate_of_def)

text \<open>
  C8, as stated, fails for \<^verbatim>\<open>fetchDailyMetrics\<close> called without a date: the date
  asked for is then the UTC date of the clock at the time of the call. On a store
  that does not change and holds metrics for 15 January only, a call in the last
  millisecond of that day returns two cards and the next call, after midnight,
  returns none.
\<close>

theorem daily_across_midnight_counterexample:
  "map ad_id (fst (fetchDailyMetrics (env_of True daily_store midnight_clock) None fresh))
     = [JStr ''d-1'', JStr ''d-2'']
   \<and> fst (fetchDailyMetrics (env_of True daily_store midnight_clock) None
            (snd (fetchDailyMetrics (env_of True daily_store midnight_clock) None fresh)))
     = []
   \<and> fst (fetchDailyMetrics (env_of True daily_store midnight_clock) None
            (snd (fetchDailyMetrics (env_of True daily_store midnight_clock) None fresh)))
     \<noteq> fst (fetchDailyMetrics (env_of True daily_store midnight_clock) None fresh)"
  by (simp add: fetchDailyMetrics_def targetDate_of_def new_Date_def store_defs query_defs
        time_defs daily_row_def row_to_card_def issue_def mockDailyMetrics_def)

text \<open>
  C8, amended. Against one environment (an unchanged store, the module constants as
  loaded), a read operation called again with the same arguments, from whatever world
  the earlier calls left, returns the same result, provided that for
  \<^verbatim>\<open>fetchDailyMetrics\<close> the date asked for is the same at both calls; it is whenever
  a non-empty date is passed, and for a missing or empty date when the UTC date of the
  clock has not changed. The fallback constants are built once, when the module is
  loaded, so repeated fallbacks agree in their timestamps too.
\<close>

theorem repeated_reads_agree:
  "fst (fetchSummaryMetrics e st') = fst (fetchSummaryMetrics e st)
   \<and> (fst (targetDate_of e d st') = fst (targetDate_of e d st)
        \<longrightarrow> fst (fetchDailyMetrics e d st') = fst (fetchDailyMetrics e d st))
   \<and> (date_given \<noteq> []
        \<longrightarrow> fst (fetchDailyMetrics e (Some date_given) st')
            = fst (fetchDailyMetrics e (Some date_given) st))
   \<and> fst (fetchAllTargetingIntel e st') = fst (fetchAllTargetingIntel e st)
   \<and> fst (fetchTargetingIntelByCompetitorId e competitorId st')
       = fst (fetchTargetingIntelByCompetitorId e competitorId st)
   \<and> fst (fetchTargetingIntelByCompetitorName e competitorName st')
       = fst (fetchTargetingIntelByCompetitorName e competitorName st)
   \<and> fst (fetchLatestTargetingIntel e st') = fst (fetchLatestTargetingIntel e st)"
proof (intro conjI impI)
  show "fst (fetchSummaryMetrics e st') = fst (fetchSummaryMetrics e st)"
    by (simp add: fetchSummaryMetrics_def Let_def split: outcome.splits option.splits list.splits)
  show "fst (fetchDailyMetrics e d st') = fst (fetchDailyMetrics e d st)"
    if "fst (targetDate_of e d st') = fst (targetDate_of e d st)"
    using that by (simp add: daily_by_target)
  show "fst (fetchDailyMetrics e (Some date_given) st')
            = fst (fetchDailyMetrics e (Some date_given) st)"
    if "date_given \<noteq> []"
    using that by (simp add: daily_by_target target_of_given)
  show "fst (fetchAllTargetingIntel e st') = fst (fetchAllTargetingIntel e st)"
    by (simp add: fetchAllTargetingIntel_def Let_def split: outcome.splits option.splits)
  show "fst (fetchTargetingIntelByCompetitorId e competitorId st')
       = fst (fetchTargetingIntelByCompetitorId e competitorId st)"
    by (simp add: fetchTargetingIntelByCompetitorId_def)
  show "fst (fetchTargetingIntelByCompetitorName e competitorName st')
       = fst (fetchTargetingIntelByCompetitorName e competitorName st)"
    by (simp add: fetchTargetingIntelByCompetitorName_def)
  show "fst (fetchLatestTargetingIntel e st') = fst (fetchLatestTargetingIntel e st)"
    by (simp add: fetchLatestTargetingIntel_def)
qed

theorem repeated_reads_agree_witness:
  "fst (targetDate_of (env_of True daily_store morning_clock) None fresh) = ''2024-01-15''
   \<and> fst (targetDate_of (env_of True daily_store morning_clock) None
            (snd (fetchDailyMetrics (env_of True daily_store morning_clock) None fresh)))
       = ''2024-01-15''
   \<and> fst (fetchDailyMetrics (env_of True daily_store morning_clock) None
            (snd (fetchDailyMetrics (env_of True daily_store morning_clock) None fresh)))
       = fst (fetchDailyMetrics (env_of True daily_store morning_clock) None fresh)
   \<and> fst (fetchDailyMetrics (env_of True daily_store midnight_clock) (Some ''2024-01-15'')
            (snd (fetchDailyMetrics (env_of True daily_store midnight_clock) (Some ''2024-01-15'') fresh)))
       = fst (fetchDailyMetrics (env_of True daily_store midnight_clock) (Some ''2024-01-15'') fresh)
   \<and> fst (fetchSummaryMetrics offline (snd (fetchSummaryMetrics offline fresh)))
       = mockSummaryMetrics offline
   \<and> fst (fetchSummaryMetrics offline fresh) = mockSummaryMetrics offline
   \<and> member (mockSummaryMetrics offline) ''created_at'' = JStr ''2024-01-15T09:00:00.001Z''
   \<and> fst (fetchLatestTargetingIntel (env_of True nike_store morning_clock)
            (snd (fetchLatestTargetingIntel (env_of True nike_store morning_clock) fresh)))
       = fst (fetchLatestTargetingIntel (env_of True nike_store morning_clock) fresh)"
proof -
  let ?morning = "env_of True daily_store morning_clock"
  let ?midnight = "env_of True daily_store midnight_clock"
  let ?nike = "env_of True nike_store morning_clock"
  have after: "snd (fetchDailyMetrics ?morning None fresh)
                 = \<lparr>calls = [SelectRows (daily_query ''2024-01-15'')], ticks = 1\<rparr>"
    by (simp add: fetchDailyMetrics_def targetDate_of_def new_Date_def store_defs time_defs
          issue_def row_to_card_def daily_row_def)
  have today: "fst (targetDate_of ?morning None fresh) = ''2024-01-15''"
    "fst (targetDate_of ?morning None (snd (fetchDailyMetrics ?morning None fresh))) = ''2024-01-15''"
    unfolding after by (simp_all add: targetDate_of_def new_Date_def store_defs time_defs)
  have given: "''2024-01-15'' \<noteq> []" by simp
  have mock: "fst (fetchSummaryMetrics offline fresh) = mockSummaryMetrics offline"
    "member (mockSummaryMetrics offline) ''created_at'' = JStr ''2024-01-15T09:00:00.001Z''"
    by (simp_all add: fetchSummaryMetrics_def mockSummaryMetrics_def store_defs time_defs)
  show ?thesis
    using today given mock
      repeated_reads_agree [of ?morning "snd (fetchDailyMetrics ?morning None fresh)" fresh None]
      repeated_reads_agree [of ?midnight
        "snd (fetchDailyMetrics ?midnight (Some ''2024-01-15'') fresh)" fresh _ "''2024-01-15''"]
      repeated_reads_agree [of offline "snd (fetchSummaryMetrics offline fresh)" fresh]
      repeated_reads_agree [of ?nike "snd (fetchLatestTargetingIntel ?nike fresh)" fresh]
    by simp
qed


end
